theory Spec2Isabelle
  imports Main
begin

section \<open>Values shared by the four generations of the Webex channel\<close>

text \<open>
  The sources hold four generations of one notification channel:
  \<^item> \<open>webex.go\<close>, first half: the unified-alerting channel posting to an incoming
    webhook (suffix \<open>_hook\<close> below);
  \<^item> \<open>webex.go\<close>, second half: the unified-alerting channel posting to the room API
    with a bearer token (suffix \<open>_room\<close>);
  \<^item> \<open>part_000\<close>: the legacy single-rule notifier for an incoming webhook (suffix
    \<open>_legacy_hook\<close>);
  \<^item> \<open>part_001\<close>: the legacy single-rule notifier for the room API (suffix
    \<open>_legacy_room\<close>).
  All four declare the same Go names (\<open>WebexNotifier\<close>, \<open>Notify\<close>, ...); the suffix
  tells them apart. A Go \<open>string\<close> is a sequence of bytes and is modelled as \<open>string\<close>,
  a list of 8-bit characters; text beyond ASCII appears as its UTF-8 bytes.
\<close>

subsection \<open>JSON settings\<close>

text \<open>
  The value held by a \<open>simplejson.Json\<close>. Numbers are kept as their literal, as
  \<open>json.Number\<close> does; a Go map is an association list read by \<open>map_of\<close>.
\<close>

datatype Json =
    JNull
  | JBool bool
  | JNumber string
  | JString string
  | JArray "Json list"
  | JObject "(string \<times> Json) list"

text \<open>
  Modelled from the spec: the package \<open>simplejson\<close> is outside the given sources. Each
  key is fetched and coerced to string, "an empty/missing result" standing for a key
  that is absent or does not hold a string; \<open>Get\<close> on a missing key gives the null
  value, and \<open>MustString\<close> gives its default (the empty string when the call passes
  none) for every value that is not a string.
\<close>

fun Get :: "Json \<Rightarrow> string \<Rightarrow> Json" where
  "Get (JObject kvs) key = (case map_of kvs key of Some val \<Rightarrow> val | None \<Rightarrow> JNull)"
| "Get _ key = JNull"

fun MustString :: "Json \<Rightarrow> string \<Rightarrow> string" where
  "MustString (JString s) def = s"
| "MustString _ def = def"

text \<open>\<open>simplejson.New()\<close> is an empty object and \<open>Set\<close> stores under a key of an object.\<close>

definition simplejson_New :: Json where
  "simplejson_New = JObject []"

fun Set :: "Json \<Rightarrow> string \<Rightarrow> Json \<Rightarrow> Json" where
  "Set (JObject kvs) key val = JObject ((key, val) # filter (\<lambda>kv. fst kv \<noteq> key) kvs)"
| "Set j key val = j"

subsection \<open>Errors\<close>

text \<open>
  A plain Go \<open>error\<close> made by \<open>errors.New\<close> (the transport's errors are values of this
  type too), the legacy \<open>alerting.ValidationError\<close>, and the \<open>receiverInitError\<close> of
  the unified-alerting factories.
\<close>

datatype error = errors_New string

fun Error :: "error \<Rightarrow> string" where
  "Error (errors_New s) = s"

datatype ValidationError = ValidationError (Reason: string)

subsection \<open>Configuration records\<close>

type_synonym SecureSettings = "(string \<times> string) list"

text \<open>\<open>GetDecryptedValueFn\<close>: secure store, key and plaintext fallback to the secret.\<close>

type_synonym GetDecryptedValueFn = "SecureSettings \<Rightarrow> string \<Rightarrow> string \<Rightarrow> string"

record NotificationChannelConfig =
  UID :: string
  Name :: string
  Type :: string
  DisableResolveMessage :: bool
  Settings :: Json
  SecureSettings :: SecureSettings

record AlertNotification =
  Uid :: string
  Name :: string
  Type :: string
  DisableResolveMessage :: bool
  Settings :: Json
  SecureSettings :: SecureSettings

record receiverInitError =
  Reason :: string
  Cfg :: NotificationChannelConfig

text \<open>
  Modelled from the spec: \<open>Base\<close>, \<open>NewBase\<close> and \<open>GetDisableResolveMessage\<close> are declared
  outside the given sources. The base of a notifier keeps the unique identifier, the
  human name, the channel type and the flag \<open>suppressResolveMessage\<close> of the
  configuration it was built from, never mutated after construction; the getter reads
  the flag.
\<close>

record Base =
  Name :: string
  Type :: string
  UID :: string
  DisableResolveMessage :: bool

definition NewBase :: "AlertNotification \<Rightarrow> Base" where
  "NewBase model =
     \<lparr> Base.Name = AlertNotification.Name model,
       Base.Type = AlertNotification.Type model,
       Base.UID = AlertNotification.Uid model,
       Base.DisableResolveMessage = AlertNotification.DisableResolveMessage model \<rparr>"

definition GetDisableResolveMessage :: "Base \<Rightarrow> bool" where
  "GetDisableResolveMessage n = Base.DisableResolveMessage n"

subsection \<open>Go library functions used by the channel\<close>

text \<open>
  A \<open>\u\<close> escape of a Go string literal stands for the UTF-8 bytes of the code point.
\<close>

definition utf8 :: "nat \<Rightarrow> string" where
  "utf8 r =
     (if r < 0x80 then [char_of r]
      else if r < 0x800 then [char_of (0xC0 + r div 64), char_of (0x80 + r mod 64)]
      else if r < 0x10000 then
        [char_of (0xE0 + r div 4096), char_of (0x80 + r div 64 mod 64), char_of (0x80 + r mod 64)]
      else
        [char_of (0xF0 + r div 262144), char_of (0x80 + r div 4096 mod 64),
         char_of (0x80 + r div 64 mod 64), char_of (0x80 + r mod 64)])"

text \<open>
  \<open>path.Clean\<close> and \<open>path.Join\<close> of the standard library. \<open>Clean_loop\<close> is the loop
  of \<open>Clean\<close> over the rest of the path, with the output written so far and the index
  \<open>dotdot\<close> below which \<open>..\<close> cannot backtrack; \<open>backtrack\<close> is its inner loop that
  drops the last element of the output.
\<close>

fun backtrack :: "string \<Rightarrow> nat \<Rightarrow> nat \<Rightarrow> nat" where
  "backtrack out dotdot 0 = 0"
| "backtrack out dotdot (Suc w) =
     (if Suc w > dotdot \<and> out ! Suc w \<noteq> CHR ''/'' then backtrack out dotdot w else Suc w)"

definition at_separator :: "string \<Rightarrow> bool" where
  "at_separator p = (case p of [] \<Rightarrow> True | c # _ \<Rightarrow> c = CHR ''/'')"

definition at_dotdot :: "string \<Rightarrow> bool" where
  "at_dotdot p = (case p of [] \<Rightarrow> False | c # q \<Rightarrow> c = CHR ''.'' \<and> at_separator q)"

function Clean_loop :: "bool \<Rightarrow> string \<Rightarrow> string \<Rightarrow> nat \<Rightarrow> string" where
  "Clean_loop rooted [] out dotdot = out"
| "Clean_loop rooted (c # p) out dotdot =
     (if c = CHR ''/'' then Clean_loop rooted p out dotdot
      else if c = CHR ''.'' \<and> at_separator p then Clean_loop rooted p out dotdot
      else if c = CHR ''.'' \<and> at_dotdot p then
        (if length out > dotdot then
           Clean_loop rooted (tl p) (take (backtrack out dotdot (length out - 1)) out) dotdot
         else if \<not> rooted then
           (let out' = (if length out > 0 then out @ ''/'' else out) @ ''..''
            in Clean_loop rooted (tl p) out' (length out'))
         else Clean_loop rooted (tl p) out dotdot)
      else
        (let out' = (if rooted \<and> length out \<noteq> 1 \<or> \<not> rooted \<and> length out \<noteq> 0
                     then out @ ''/'' else out)
         in Clean_loop rooted (dropWhile (\<lambda>x. x \<noteq> CHR ''/'') p)
              (out' @ c # takeWhile (\<lambda>x. x \<noteq> CHR ''/'') p) dotdot))"
  by pat_completeness auto
termination
  by (relation "measure (\<lambda>(rooted, p, out, dotdot). length p)")
     (simp_all add: less_Suc_eq_le length_dropWhile_le)

definition Clean :: "string \<Rightarrow> string" where
  "Clean p =
     (case p of
        [] \<Rightarrow> ''.''
      | c # q \<Rightarrow>
          (let out = (if c = CHR ''/'' then Clean_loop True q ''/'' 1
                      else Clean_loop False p [] 0)
           in if out = [] then ''.'' else out))"

fun Join_buf :: "string \<Rightarrow> string list \<Rightarrow> string" where
  "Join_buf buf [] = buf"
| "Join_buf buf (e # elem) =
     (if buf \<noteq> [] \<or> e \<noteq> []
      then Join_buf ((if buf \<noteq> [] then buf @ ''/'' else buf) @ e) elem
      else Join_buf buf elem)"

definition Join :: "string list \<Rightarrow> string" where
  "Join elem = (if sum_list (map length elem) = 0 then [] else Clean (Join_buf [] elem))"

text \<open>
  \<open>json.Marshal\<close> of the standard library, on the values the channel marshals. A string
  is quoted; the quote and the backslash are escaped, \<open>\n\<close>, \<open>\r\<close> and \<open>\t\<close> keep
  their short form, every other control byte and the characters \<open><\<close>, \<open>>\<close>, \<open>&\<close>
  become \<open>\u00XX\<close>; a byte sequence that is not UTF-8 becomes \<open>\ufffd\<close> byte by byte;
  U+2028 and U+2029 are escaped (the encoder of the Go releases that these sources were
  written for, which has no short form for backspace and form feed). The keys of a map
  are written in byte order.
\<close>

definition hex :: "nat \<Rightarrow> char" where
  "hex n = ''0123456789abcdef'' ! n"

definition continuation :: "nat \<Rightarrow> bool" where
  "continuation b = (0x80 \<le> b \<and> b \<le> 0xBF)"

text \<open>
  The size of the UTF-8 sequence at the head of the bytes, as \<open>utf8.DecodeRuneInString\<close>
  finds it; 0 stands for an invalid sequence (\<open>RuneError\<close> of width 1).
\<close>

definition DecodeRune_size :: "nat list \<Rightarrow> nat" where
  "DecodeRune_size bs =
     (case bs of
        b0 # b1 # rest \<Rightarrow>
          (if 0xC2 \<le> b0 \<and> b0 \<le> 0xDF then (if continuation b1 then 2 else 0)
           else if 0xE0 \<le> b0 \<and> b0 \<le> 0xEF then
             (if (if b0 = 0xE0 then 0xA0 else 0x80) \<le> b1
                 \<and> b1 \<le> (if b0 = 0xED then 0x9F else 0xBF)
              then (case rest of b2 # _ \<Rightarrow> if continuation b2 then 3 else 0 | [] \<Rightarrow> 0)
              else 0)
           else if 0xF0 \<le> b0 \<and> b0 \<le> 0xF4 then
             (if (if b0 = 0xF0 then 0x90 else 0x80) \<le> b1
                 \<and> b1 \<le> (if b0 = 0xF4 then 0x8F else 0xBF)
              then (case rest of
                      b2 # b3 # _ \<Rightarrow> if continuation b2 \<and> continuation b3 then 4 else 0
                    | _ \<Rightarrow> 0)
              else 0)
           else 0)
      | _ \<Rightarrow> 0)"

definition escape_byte :: "char \<Rightarrow> string" where
  "escape_byte c =
     (let b = (of_char c :: nat) in
      if c = CHR 0x5C \<or> c = CHR 0x22 then [CHR 0x5C, c]
      else if c = CHR 0x0A then [CHR 0x5C, CHR ''n'']
      else if c = CHR 0x0D then [CHR 0x5C, CHR ''r'']
      else if c = CHR 0x09 then [CHR 0x5C, CHR ''t'']
      else if b < 0x20 \<or> c = CHR ''<'' \<or> c = CHR ''>'' \<or> c = CHR ''&''
        then [CHR 0x5C] @ ''u00'' @ [hex (b div 16), hex (b mod 16)]
      else [c])"

function encode_bytes :: "string \<Rightarrow> string" where
  "encode_bytes [] = []"
| "encode_bytes (c # s) =
     (if (of_char c :: nat) < 0x80 then escape_byte c @ encode_bytes s
      else
        (case DecodeRune_size (map of_char (c # take 3 s)) of
           0 \<Rightarrow> [CHR 0x5C] @ ''ufffd'' @ encode_bytes s
         | Suc n \<Rightarrow>
             (if c # take n s = [CHR 0xE2, CHR 0x80, CHR 0xA8] then [CHR 0x5C] @ ''u2028''
              else if c # take n s = [CHR 0xE2, CHR 0x80, CHR 0xA9] then [CHR 0x5C] @ ''u2029''
              else c # take n s) @ encode_bytes (drop n s)))"
  by pat_completeness auto
termination
  by (relation "measure length") (simp_all add: less_Suc_eq_le)

definition encode_string :: "string \<Rightarrow> string" where
  "encode_string s = [CHR 0x22] @ encode_bytes s @ [CHR 0x22]"

fun string_less :: "string \<Rightarrow> string \<Rightarrow> bool" where
  "string_less [] [] = False"
| "string_less [] (y # ys) = True"
| "string_less (x # xs) [] = False"
| "string_less (x # xs) (y # ys) =
     ((of_char x :: nat) < of_char y \<or> (x = y \<and> string_less xs ys))"

fun insert_key :: "string \<times> 'a \<Rightarrow> (string \<times> 'a) list \<Rightarrow> (string \<times> 'a) list" where
  "insert_key kv [] = [kv]"
| "insert_key kv (x # xs) =
     (if string_less (fst x) (fst kv) then x # insert_key kv xs else kv # x # xs)"

text \<open>The entries of the map an association list stands for: the first pair of a key.\<close>

fun entries :: "(string \<times> 'a) list \<Rightarrow> (string \<times> 'a) list" where
  "entries [] = []"
| "entries (kv # kvs) = kv # filter (\<lambda>x. fst x \<noteq> fst kv) (entries kvs)"

definition sorted_entries :: "(string \<times> 'a) list \<Rightarrow> (string \<times> 'a) list" where
  "sorted_entries kvs = foldr insert_key (entries kvs) []"

fun join_comma :: "string list \<Rightarrow> string" where
  "join_comma [] = []"
| "join_comma [x] = x"
| "join_comma (x # y # zs) = x @ '','' @ join_comma (y # zs)"

fun Marshal :: "Json \<Rightarrow> string" where
  "Marshal JNull = ''null''"
| "Marshal (JBool b) = (if b then ''true'' else ''false'')"
| "Marshal (JNumber n) = n"
| "Marshal (JString s) = encode_string s"
| "Marshal (JArray xs) = ''['' @ join_comma (map Marshal xs) @ '']''"
| "Marshal (JObject kvs) =
     ''{'' @ join_comma (map (\<lambda>kv. encode_string (fst kv) @ '':'' @ snd kv)
              (sorted_entries (map (\<lambda>kv. (fst kv, Marshal (snd kv))) kvs))) @ ''}''"

text \<open>\<open>strings.Contains\<close>: the second string occurs in the first as a run of bytes.\<close>

fun HasPrefix :: "string \<Rightarrow> string \<Rightarrow> bool" where
  "HasPrefix s [] = True"
| "HasPrefix [] (p # ps) = False"
| "HasPrefix (c # s) (p # ps) = (c = p \<and> HasPrefix s ps)"

fun Contains :: "string \<Rightarrow> string \<Rightarrow> bool" where
  "Contains [] substr = (substr = [])"
| "Contains (c # s) substr = (HasPrefix (c # s) substr \<or> Contains s substr)"

subsection \<open>Alerts, templates, images, the transport\<close>

text \<open>
  An alert of a batch with its status; whether an alert is resolved depends on the clock
  in the library, and is a field here. \<open>Alerts_Status\<close> is the library's status of a
  batch: firing as soon as one alert is not resolved.
\<close>

datatype AlertStatus = AlertFiring | AlertResolved

record Alert =
  Labels :: "(string \<times> string) list"
  Annotations :: "(string \<times> string) list"
  Status :: AlertStatus

definition HasFiring :: "Alert list \<Rightarrow> bool" where
  "HasFiring as = list_ex (\<lambda>a. Status a \<noteq> AlertResolved) as"

definition Alerts_Status :: "Alert list \<Rightarrow> AlertStatus" where
  "Alerts_Status as = (if HasFiring as then AlertFiring else AlertResolved)"

text \<open>
  The templating engine is a black box: \<open>ExecuteTextString\<close> renders a template text
  against the batch and gives the text with an optional error.
\<close>

record Template =
  ExternalURL :: string
  ExecuteTextString :: "string \<Rightarrow> Alert list \<Rightarrow> string \<times> error option"

text \<open>
  Modelled from the spec: \<open>TmplText\<close> is declared outside the given sources. It
  delegates the text substitution to the injected templating capability; a renderer
  failure is captured as a soft error, rendering continues with the output produced, and
  the error is surfaced to the caller for logging only. The error variable keeps the
  first failure.
\<close>

definition TmplText :: "Template \<Rightarrow> Alert list \<Rightarrow> string \<Rightarrow> error option \<Rightarrow> string \<times> error option" where
  "TmplText t as name tmplErr =
     (case ExecuteTextString t name as of
        (s, err) \<Rightarrow> (s, case tmplErr of None \<Rightarrow> err | Some e \<Rightarrow> Some e))"

text \<open>
  Modelled from the spec: the constant \<open>DefaultMessageTitleEmbed\<close> is declared outside
  the given sources; it is the named template of the title.
\<close>

definition DefaultMessageTitleEmbed :: string where
  "DefaultMessageTitleEmbed = ''{{ template \"default.title\" . }}''"

record Image =
  URL :: string

type_synonym ImageStore = "Alert \<Rightarrow> Image option"

text \<open>
  Modelled from the spec: \<open>withStoredImages\<close> is declared outside the given sources. It
  loops over the alerts of the batch and calls the callback with the index and the
  stored image of each alert that has one; an image that cannot be fetched is skipped and
  the loop continues. The callback here only appends to the message and returns no
  error, so it is a function on the message.
\<close>

fun withStoredImages :: "nat \<Rightarrow> ImageStore \<Rightarrow> (nat \<Rightarrow> Image \<Rightarrow> string \<Rightarrow> string) \<Rightarrow> Alert list \<Rightarrow> string \<Rightarrow> string" where
  "withStoredImages index store forEachFunc [] message = message"
| "withStoredImages index store forEachFunc (alert # as) message =
     (case store alert of
        None \<Rightarrow> withStoredImages (Suc index) store forEachFunc as message
      | Some img \<Rightarrow>
          withStoredImages (Suc index) store forEachFunc as (forEachFunc index img message))"

record SendWebhookSync =
  Url :: string
  Body :: string
  HttpMethod :: string
  ContentType :: string
  HttpHeader :: "(string \<times> string) list"

text \<open>
  The injected transport answers a command with an error or with none; its answer may
  depend on the commands sent before. What the program does to the outside is kept in a
  record: the log lines written and the commands handed to the transport, in order.
\<close>

type_synonym WebhookSender = "SendWebhookSync list \<Rightarrow> SendWebhookSync \<Rightarrow> error option"

datatype LogLevel = LvlDebug | LvlInfo | LvlWarn | LvlError

datatype LogValue = LogStr string | LogErr error | LogInt int

record LogEntry =
  log_name :: string
  log_level :: LogLevel
  log_msg :: string
  log_ctx :: "LogValue list"

record World =
  logs :: "LogEntry list"
  sent :: "SendWebhookSync list"

definition write_log :: "string \<Rightarrow> LogLevel \<Rightarrow> string \<Rightarrow> LogValue list \<Rightarrow> World \<Rightarrow> World" where
  "write_log l lvl m args w =
     w\<lparr> logs := logs w @ [\<lparr> log_name = l, log_level = lvl, log_msg = m, log_ctx = args \<rparr>] \<rparr>"

definition send :: "WebhookSender \<Rightarrow> SendWebhookSync \<Rightarrow> World \<Rightarrow> error option \<times> World" where
  "send sender cmd w = (sender (sent w) cmd, w\<lparr> sent := sent w @ [cmd] \<rparr>)"

section \<open>The unified-alerting channel for an incoming webhook (\<open>webex.go\<close>, first half)\<close>

record WebexConfig_hook =
  NotificationChannelConfig :: NotificationChannelConfig
  WebhookURL :: string
  Content :: string

record WebexNotifier_hook =
  Base :: Base
  WebhookURL :: string
  Content :: string
  log :: string
  images :: ImageStore
  ns :: WebhookSender
  tmpl :: Template

record FactoryConfig =
  Config :: NotificationChannelConfig
  DecryptFunc :: GetDecryptedValueFn
  ImageStore :: ImageStore
  NotificationService :: WebhookSender
  Template :: Template

definition NewWebexConfig_hook :: "NotificationChannelConfig \<Rightarrow> GetDecryptedValueFn \<Rightarrow> error + WebexConfig_hook" where
  "NewWebexConfig_hook config decryptFunc =
     (let webhookUrl = MustString (Get (NotificationChannelConfig.Settings config) ''webhook_url'') ''''
      in if webhookUrl = '''' then Inl (errors_New ''could not find Webex Webhook URL in settings'')
         else Inr \<lparr> NotificationChannelConfig = config,
                    WebexConfig_hook.WebhookURL = webhookUrl,
                    WebexConfig_hook.Content =
                      MustString (Get (NotificationChannelConfig.Settings config) ''message'')
                        ''{{ template \"default.message\" . }}'' \<rparr>)"

definition NewWebexNotifier_hook :: "WebexConfig_hook \<Rightarrow> ImageStore \<Rightarrow> WebhookSender \<Rightarrow> Template \<Rightarrow> WebexNotifier_hook" where
  "NewWebexNotifier_hook config images' ns' t =
     \<lparr> Base = NewBase
         \<lparr> Uid = NotificationChannelConfig.UID (NotificationChannelConfig config),
           AlertNotification.Name = NotificationChannelConfig.Name (NotificationChannelConfig config),
           AlertNotification.Type = NotificationChannelConfig.Type (NotificationChannelConfig config),
           AlertNotification.DisableResolveMessage =
             NotificationChannelConfig.DisableResolveMessage (NotificationChannelConfig config),
           AlertNotification.Settings =
             NotificationChannelConfig.Settings (NotificationChannelConfig config),
           AlertNotification.SecureSettings = [] \<rparr>,
       WebexNotifier_hook.WebhookURL = WebexConfig_hook.WebhookURL config,
       WebexNotifier_hook.Content = WebexConfig_hook.Content config,
       log = ''alerting.notifier.webex'',
       images = images',
       ns = ns',
       tmpl = t \<rparr>"

definition WebexFactory_hook :: "FactoryConfig \<Rightarrow> receiverInitError + WebexNotifier_hook" where
  "WebexFactory_hook fc =
     (case NewWebexConfig_hook (Config fc) (DecryptFunc fc) of
        Inl err \<Rightarrow> Inl \<lparr> Reason = Error err, Cfg = Config fc \<rparr>
      | Inr cfg \<Rightarrow>
          Inr (NewWebexNotifier_hook cfg (ImageStore fc) (FactoryConfig.NotificationService fc)
                 (Template fc)))"

text \<open>
  The state symbol of a batch (lines 88 to 93, and again lines 239 to 244 in the second
  half): the warning sign, replaced by the check mark when the status of the batch is
  resolved.
\<close>

definition stateEmoji :: "Alert list \<Rightarrow> string" where
  "stateEmoji as =
     (if Alerts_Status as = AlertResolved then utf8 0x2705 @ '' ''
      else utf8 0x26A0 @ utf8 0xFE0F @ '' '')"

text \<open>The callback handed to \<open>withStoredImages\<close>, the same in both halves.\<close>

definition appendImage :: "nat \<Rightarrow> Image \<Rightarrow> string \<Rightarrow> string" where
  "appendImage index img message =
     (if URL img \<noteq> '''' then message @ ''*Image:* '' @ URL img @ ''\<newline>'' else message)"

text \<open>
  \<open>Notify\<close> in three steps: the message with the template error (lines 85 to 113), the
  command for the transport (lines 115 to 127), and the call with its log lines.
\<close>

definition message_hook :: "WebexNotifier_hook \<Rightarrow> Alert list \<Rightarrow> string \<times> error option" where
  "message_hook tn as =
     (case TmplText (tmpl tn) as DefaultMessageTitleEmbed None of
        (title, tmplErr1) \<Rightarrow>
          (case TmplText (tmpl tn) as (WebexNotifier_hook.Content tn) tmplErr1 of
             (text, tmplErr) \<Rightarrow>
               (withStoredImages 0 (images tn) appendImage as
                  (stateEmoji as @ title @ ''\<newline>\<newline>*Message:*\<newline>'' @ text
                     @ ''\<newline>*URL:* '' @ Join [ExternalURL (tmpl tn), ''/alerting/list'']
                     @ ''\<newline>''),
                tmplErr)))"

definition request_hook :: "WebexNotifier_hook \<Rightarrow> Alert list \<Rightarrow> SendWebhookSync" where
  "request_hook tn as =
     (let body = Set simplejson_New ''markdown'' (JString (fst (message_hook tn as)));
          data = Marshal body;
          headers = []
      in \<lparr> Url = WebexNotifier_hook.WebhookURL tn,
           Body = data,
           HttpMethod = ''POST'',
           ContentType = ''application/json; charset=utf-8'',
           HttpHeader = headers \<rparr>)"

definition Notify_hook :: "WebexNotifier_hook \<Rightarrow> Alert list \<Rightarrow> World \<Rightarrow> (bool \<times> error option) \<times> World" where
  "Notify_hook tn as w =
     (let w1 = write_log (WebexNotifier_hook.log tn) LvlDebug
                 ''sending webex alert notification at url''
                 [LogStr (WebexNotifier_hook.WebhookURL tn)] w;
          w2 = (case snd (message_hook tn as) of
                  None \<Rightarrow> w1
                | Some tmplErr \<Rightarrow>
                    write_log (WebexNotifier_hook.log tn) LvlWarn
                      ''failed to template Webex message''
                      [LogStr ''err'', LogStr (Error tmplErr)] w1)
      in case send (WebexNotifier_hook.ns tn) (request_hook tn as) w2 of
           (Some err, w3) \<Rightarrow>
             ((False, Some err),
              write_log (WebexNotifier_hook.log tn) LvlError
                ''Failed to send webex notification''
                [LogStr ''err'', LogErr err, LogStr ''webhook'',
                 LogStr (Base.Name (WebexNotifier_hook.Base tn))] w3)
         | (None, w3) \<Rightarrow> ((True, None), w3))"

definition SendResolved_hook :: "WebexNotifier_hook \<Rightarrow> bool" where
  "SendResolved_hook tn = (\<not> GetDisableResolveMessage (WebexNotifier_hook.Base tn))"

section \<open>The unified-alerting channel for the room API (\<open>webex.go\<close>, second half)\<close>

record WebexConfig_room =
  NotificationChannelConfig :: NotificationChannelConfig
  URL :: string
  RoomID :: string
  APISecret :: string

record WebexNotifier_room =
  Base :: Base
  URL :: string
  RoomID :: string
  APISecret :: string
  log :: string
  images :: ImageStore
  ns :: WebhookSender
  tmpl :: Template

definition NewWebexConfig_room :: "NotificationChannelConfig \<Rightarrow> GetDecryptedValueFn \<Rightarrow> error + WebexConfig_room" where
  "NewWebexConfig_room config decryptFunc =
     (let webexUrl = MustString (Get (NotificationChannelConfig.Settings config) ''url'') ''''
      in if webexUrl = '''' then Inl (errors_New ''could not find Webex URL in settings'')
         else
          (let roomID = MustString (Get (NotificationChannelConfig.Settings config) ''room_id'') ''''
           in if roomID = '''' then Inl (errors_New ''could not find Webex Room ID in settings'')
              else
               (let apiSecret =
                      decryptFunc (NotificationChannelConfig.SecureSettings config) ''api_secret''
                        (MustString (Get (NotificationChannelConfig.Settings config) ''api_secret'') '''')
                in if apiSecret = ''''
                   then Inl (errors_New ''could not find Webex API secret in settings'')
                   else Inr \<lparr> WebexConfig_room.NotificationChannelConfig = config,
                              WebexConfig_room.URL = webexUrl,
                              WebexConfig_room.RoomID = roomID,
                              WebexConfig_room.APISecret = apiSecret \<rparr>)))"

definition NewWebexNotifier_room :: "WebexConfig_room \<Rightarrow> ImageStore \<Rightarrow> WebhookSender \<Rightarrow> Template \<Rightarrow> WebexNotifier_room" where
  "NewWebexNotifier_room config images' ns' t =
     \<lparr> WebexNotifier_room.Base = NewBase
         \<lparr> Uid = NotificationChannelConfig.UID (WebexConfig_room.NotificationChannelConfig config),
           AlertNotification.Name =
             NotificationChannelConfig.Name (WebexConfig_room.NotificationChannelConfig config),
           AlertNotification.Type =
             NotificationChannelConfig.Type (WebexConfig_room.NotificationChannelConfig config),
           AlertNotification.DisableResolveMessage =
             NotificationChannelConfig.DisableResolveMessage
               (WebexConfig_room.NotificationChannelConfig config),
           AlertNotification.Settings =
             NotificationChannelConfig.Settings (WebexConfig_room.NotificationChannelConfig config),
           AlertNotification.SecureSettings = [] \<rparr>,
       WebexNotifier_room.URL = WebexConfig_room.URL config,
       WebexNotifier_room.RoomID = WebexConfig_room.RoomID config,
       WebexNotifier_room.APISecret = WebexConfig_room.APISecret config,
       WebexNotifier_room.log = ''alerting.notifier.webex'',
       WebexNotifier_room.images = images',
       WebexNotifier_room.ns = ns',
       WebexNotifier_room.tmpl = t \<rparr>"

definition WebexFactory_room :: "FactoryConfig \<Rightarrow> receiverInitError + WebexNotifier_room" where
  "WebexFactory_room fc =
     (case NewWebexConfig_room (Config fc) (DecryptFunc fc) of
        Inl err \<Rightarrow> Inl \<lparr> Reason = Error err, Cfg = Config fc \<rparr>
      | Inr cfg \<Rightarrow>
          Inr (NewWebexNotifier_room cfg (ImageStore fc) (FactoryConfig.NotificationService fc)
                 (Template fc)))"

text \<open>
  \<open>Notify\<close> in the same three steps: the message (lines 236 to 264), the command (lines
  266 to 281), the call (lines 282 to 287).
\<close>

definition message_room :: "WebexNotifier_room \<Rightarrow> Alert list \<Rightarrow> string \<times> error option" where
  "message_room tn as =
     (case TmplText (WebexNotifier_room.tmpl tn) as DefaultMessageTitleEmbed None of
        (title, tmplErr1) \<Rightarrow>
          (case TmplText (WebexNotifier_room.tmpl tn) as
                  ''{{ template \"default.message\" . }}'' tmplErr1 of
             (text, tmplErr) \<Rightarrow>
               (withStoredImages 0 (WebexNotifier_room.images tn) appendImage as
                  (stateEmoji as @ title @ ''\<newline>\<newline>*Message:*\<newline>'' @ text
                     @ ''\<newline>*URL:* ''
                     @ Join [ExternalURL (WebexNotifier_room.tmpl tn), ''/alerting/list'']
                     @ ''\<newline>''),
                tmplErr)))"

definition request_room :: "WebexNotifier_room \<Rightarrow> Alert list \<Rightarrow> SendWebhookSync" where
  "request_room tn as =
     (let body = JObject [(''roomId'', JString (WebexNotifier_room.RoomID tn)),
                          (''markdown'', JString (fst (message_room tn as)))];
          data = Marshal body;
          headers = [(''Authorization'', ''Bearer '' @ WebexNotifier_room.APISecret tn)]
      in \<lparr> Url = WebexNotifier_room.URL tn,
           Body = data,
           HttpMethod = ''POST'',
           ContentType = ''application/json; charset=utf-8'',
           HttpHeader = headers \<rparr>)"

definition Notify_room :: "WebexNotifier_room \<Rightarrow> Alert list \<Rightarrow> World \<Rightarrow> (bool \<times> error option) \<times> World" where
  "Notify_room tn as w =
     (let w1 = write_log (WebexNotifier_room.log tn) LvlDebug
                 ''sending webex alert notification at url''
                 [LogStr (WebexNotifier_room.URL tn), LogStr ''to'',
                  LogStr (WebexNotifier_room.RoomID tn)] w;
          w2 = (case snd (message_room tn as) of
                  None \<Rightarrow> w1
                | Some tmplErr \<Rightarrow>
                    write_log (WebexNotifier_room.log tn) LvlWarn
                      ''failed to template Webex message''
                      [LogStr ''err'', LogStr (Error tmplErr)] w1)
      in case send (WebexNotifier_room.ns tn) (request_room tn as) w2 of
           (Some err, w3) \<Rightarrow>
             ((False, Some err),
              write_log (WebexNotifier_room.log tn) LvlError
                ''Failed to send webex notification''
                [LogStr ''err'', LogErr err, LogStr ''webhook'',
                 LogStr (Base.Name (WebexNotifier_room.Base tn))] w3)
         | (None, w3) \<Rightarrow> ((True, None), w3))"

definition SendResolved_room :: "WebexNotifier_room \<Rightarrow> bool" where
  "SendResolved_room tn = (\<not> GetDisableResolveMessage (WebexNotifier_room.Base tn))"

section \<open>The legacy single-rule notifiers (\<open>part_000\<close> and \<open>part_001\<close>)\<close>

datatype AlertStateType =
    AlertStateNoData
  | AlertStatePaused
  | AlertStateAlerting
  | AlertStateOK
  | AlertStatePending
  | AlertStateUnknown

record Rule =
  ID :: int
  Name :: string
  Message :: string
  State :: AlertStateType

text \<open>
  The evaluation context of a rule. The method \<open>GetNotificationTitle\<close> is declared
  outside the given sources; the field holds the title it returns for this context.
\<close>

record EvalContext =
  Rule :: Rule
  GetNotificationTitle :: string

text \<open>
  Modelled from the spec: \<open>NotifierBase\<close> and \<open>NewNotifierBase\<close> are declared outside the
  given sources. The base keeps the human name and the channel type of the persisted
  settings, and the injected transport.
\<close>

record NotifierBase =
  Name :: string
  Type :: string
  NotificationService :: WebhookSender

definition NewNotifierBase :: "AlertNotification \<Rightarrow> WebhookSender \<Rightarrow> NotifierBase" where
  "NewNotifierBase model ns' =
     \<lparr> NotifierBase.Name = AlertNotification.Name model,
       NotifierBase.Type = AlertNotification.Type model,
       NotifierBase.NotificationService = ns' \<rparr>"

text \<open>
  The state symbol of a rule (\<open>part_000\<close> lines 71 to 82, the same in \<open>part_001\<close> lines
  90 to 101): a \<open>switch\<close> with an empty default.
\<close>

fun stateEmoji_legacy :: "AlertStateType \<Rightarrow> string" where
  "stateEmoji_legacy AlertStateOK = utf8 0x2705 @ '' ''"
| "stateEmoji_legacy AlertStateNoData = utf8 0x2753 @ utf8 0xFE0F @ '' ''"
| "stateEmoji_legacy AlertStateAlerting = utf8 0x26A0 @ utf8 0xFE0F @ '' ''"
| "stateEmoji_legacy _ = ''''"

definition message_legacy :: "EvalContext \<Rightarrow> string" where
  "message_legacy evalContext =
     stateEmoji_legacy (State (Rule evalContext)) @ GetNotificationTitle evalContext
       @ ''\<newline>\<newline>*State:* '' @ Rule.Name (Rule evalContext)
       @ ''\<newline>*Message:* '' @ Message (Rule evalContext) @ ''\<newline>''"

subsection \<open>\<open>part_000\<close>: incoming webhook\<close>

record WebexNotifier_legacy_hook =
  NotifierBase :: NotifierBase
  WebhookURL :: string
  Content :: string
  log :: string

definition NewWebexNotifier_legacy_hook :: "AlertNotification \<Rightarrow> GetDecryptedValueFn \<Rightarrow> WebhookSender \<Rightarrow> ValidationError + WebexNotifier_legacy_hook" where
  "NewWebexNotifier_legacy_hook model fn ns' =
     (let webhookURL = MustString (Get (AlertNotification.Settings model) ''webhook_url'') ''''
      in if webhookURL = ''''
         then Inl (ValidationError ''Could not find webhook_url property in settings'')
         else
          (let content = MustString (Get (AlertNotification.Settings model) ''content'') ''''
           in Inr \<lparr> NotifierBase = NewNotifierBase model ns',
                      WebexNotifier_legacy_hook.WebhookURL = webhookURL,
                      WebexNotifier_legacy_hook.Content = content,
                      WebexNotifier_legacy_hook.log = ''alerting.notifier.webex'' \<rparr>))"

definition request_legacy_hook :: "WebexNotifier_legacy_hook \<Rightarrow> EvalContext \<Rightarrow> SendWebhookSync" where
  "request_legacy_hook wn evalContext =
     (let message = message_legacy evalContext;
          body = (if WebexNotifier_legacy_hook.Content wn \<noteq> ''''
                  then Set simplejson_New ''markdown'' (JString message)
                  else simplejson_New);
          data = Marshal body
      in \<lparr> Url = WebexNotifier_legacy_hook.WebhookURL wn,
           Body = data,
           HttpMethod = ''POST'',
           ContentType = ''application/json; charset=utf-8'',
           HttpHeader = [] \<rparr>)"

definition Notify_legacy_hook :: "WebexNotifier_legacy_hook \<Rightarrow> EvalContext \<Rightarrow> World \<Rightarrow> error option \<times> World" where
  "Notify_legacy_hook wn evalContext w =
     (let w1 = write_log (WebexNotifier_legacy_hook.log wn) LvlInfo
                 ''Executing webex notification''
                 [LogStr ''ruleId'', LogInt (ID (Rule evalContext)), LogStr ''notification'',
                  LogStr (NotifierBase.Name (WebexNotifier_legacy_hook.NotifierBase wn))] w
      in case send (NotifierBase.NotificationService (WebexNotifier_legacy_hook.NotifierBase wn))
                (request_legacy_hook wn evalContext) w1 of
           (Some err, w2) \<Rightarrow>
             (Some err,
              write_log (WebexNotifier_legacy_hook.log wn) LvlError
                ''Failed to send webex notification''
                [LogStr ''error'', LogErr err, LogStr ''webhook'',
                 LogStr (NotifierBase.Name (WebexNotifier_legacy_hook.NotifierBase wn))] w2)
         | (None, w2) \<Rightarrow> (None, w2))"

subsection \<open>\<open>part_001\<close>: room API\<close>

record WebexNotifier_legacy_room =
  NotifierBase :: NotifierBase
  URL :: string
  ApiToken :: string
  RoomId :: string
  log :: string

definition NewWebexNotifier_legacy_room :: "AlertNotification \<Rightarrow> GetDecryptedValueFn \<Rightarrow> WebhookSender \<Rightarrow> ValidationError + WebexNotifier_legacy_room" where
  "NewWebexNotifier_legacy_room model fn ns' =
     (let url = MustString (Get (AlertNotification.Settings model) ''url'') ''''
      in if url = '''' then Inl (ValidationError ''Could not find url property in settings'')
         else
          (let webexApiToken = MustString (Get (AlertNotification.Settings model) ''webexToken'') ''''
           in if webexApiToken = ''''
              then Inl (ValidationError ''Could not find webexToken property in settings'')
              else
               (let webexRoomId = MustString (Get (AlertNotification.Settings model) ''roomId'') ''''
                in if webexRoomId = ''''
                   then Inl (ValidationError ''Could not find roomId property in settings'')
                   else Inr \<lparr> WebexNotifier_legacy_room.NotifierBase = NewNotifierBase model ns',
                              WebexNotifier_legacy_room.URL = url,
                              WebexNotifier_legacy_room.ApiToken = webexApiToken,
                              WebexNotifier_legacy_room.RoomId = webexRoomId,
                              WebexNotifier_legacy_room.log = ''alerting.notifier.webex'' \<rparr>)))"

definition request_legacy_room :: "WebexNotifier_legacy_room \<Rightarrow> EvalContext \<Rightarrow> SendWebhookSync" where
  "request_legacy_room wn evalContext =
     (let message = message_legacy evalContext;
          body = JObject [(''roomId'', JString (WebexNotifier_legacy_room.RoomId wn)),
                          (''markdown'', JString message)];
          headers = [(''Authorization'', ''Bearer '' @ WebexNotifier_legacy_room.ApiToken wn)];
          data = Marshal body
      in \<lparr> Url = WebexNotifier_legacy_room.URL wn,
           Body = data,
           HttpMethod = ''POST'',
           ContentType = ''application/json; charset=utf-8'',
           HttpHeader = headers \<rparr>)"

definition Notify_legacy_room :: "WebexNotifier_legacy_room \<Rightarrow> EvalContext \<Rightarrow> World \<Rightarrow> error option \<times> World" where
  "Notify_legacy_room wn evalContext w =
     (let w1 = write_log (WebexNotifier_legacy_room.log wn) LvlInfo
                 ''Executing webex notification''
                 [LogStr ''ruleId'', LogInt (ID (Rule evalContext)), LogStr ''notification'',
                  LogStr (NotifierBase.Name (WebexNotifier_legacy_room.NotifierBase wn))] w
      in case send (NotifierBase.NotificationService (WebexNotifier_legacy_room.NotifierBase wn))
                (request_legacy_room wn evalContext) w1 of
           (Some err, w2) \<Rightarrow>
             (Some err,
              write_log (WebexNotifier_legacy_room.log wn) LvlError
                ''Failed to send webex notification''
                [LogStr ''error'', LogErr err, LogStr ''webhook'',
                 LogStr (NotifierBase.Name (WebexNotifier_legacy_room.NotifierBase wn))] w2)
         | (None, w2) \<Rightarrow> (None, w2))"

section \<open>Vocabulary of the claims and concrete inputs\<close>

text \<open>
  A required field is missing when fetching its key and coercing to string gives the
  empty string: the key is not there, or holds no string, or holds the empty string.
\<close>

definition missing :: "Json \<Rightarrow> string \<Rightarrow> bool" where
  "missing settings key = (MustString (Get settings key) '''' = '''')"

text \<open>An optional field is absent when the settings object has no such key.\<close>

definition absent :: "Json \<Rightarrow> string \<Rightarrow> bool" where
  "absent settings key = (case settings of JObject kvs \<Rightarrow> map_of kvs key = None | _ \<Rightarrow> True)"

text \<open>
  The secret of the room-API channel as resolved by the decrypt function: from the secure
  store under \<open>api_secret\<close>, with the plain setting as fallback.
\<close>

definition resolved_secret :: "NotificationChannelConfig \<Rightarrow> GetDecryptedValueFn \<Rightarrow> string" where
  "resolved_secret c dec =
     dec (NotificationChannelConfig.SecureSettings c) ''api_secret''
       (MustString (Get (NotificationChannelConfig.Settings c) ''api_secret'') '''')"

text \<open>
  The names by which the error messages call the required fields of the two room-API
  constructors, for those fields of a configuration that are missing, in the order in
  which the constructor checks them.
\<close>

definition missing_fields_room :: "NotificationChannelConfig \<Rightarrow> GetDecryptedValueFn \<Rightarrow> string list" where
  "missing_fields_room c dec =
     (if missing (NotificationChannelConfig.Settings c) ''url'' then [''URL''] else [])
     @ (if missing (NotificationChannelConfig.Settings c) ''room_id'' then [''Room ID''] else [])
     @ (if resolved_secret c dec = '''' then [''API secret''] else [])"

definition missing_fields_legacy_room :: "AlertNotification \<Rightarrow> string list" where
  "missing_fields_legacy_room m =
     (if missing (AlertNotification.Settings m) ''url'' then [''url''] else [])
     @ (if missing (AlertNotification.Settings m) ''webexToken'' then [''webexToken''] else [])
     @ (if missing (AlertNotification.Settings m) ''roomId'' then [''roomId''] else [])"

text \<open>
  Modelled from the spec: a secret resolver for the examples, which takes the
  secure-settings store, the field name and a plaintext fallback, and falls back to the
  plaintext when the store has no such field.
\<close>

definition fallback_resolver :: GetDecryptedValueFn where
  "fallback_resolver secure key fallback =
     (case map_of secure key of Some v \<Rightarrow> v | None \<Rightarrow> fallback)"

definition channel_config :: "Json \<Rightarrow> NotificationChannelConfig" where
  "channel_config settings =
     \<lparr> NotificationChannelConfig.UID = ''uid-1'',
       NotificationChannelConfig.Name = ''ops'',
       NotificationChannelConfig.Type = ''webex'',
       NotificationChannelConfig.DisableResolveMessage = False,
       NotificationChannelConfig.Settings = settings,
       NotificationChannelConfig.SecureSettings = [] \<rparr>"

definition alert_notification :: "Json \<Rightarrow> AlertNotification" where
  "alert_notification settings =
     \<lparr> Uid = ''uid-1'',
       AlertNotification.Name = ''ops'',
       AlertNotification.Type = ''webex'',
       AlertNotification.DisableResolveMessage = False,
       AlertNotification.Settings = settings,
       AlertNotification.SecureSettings = [] \<rparr>"

definition transport_ok :: WebhookSender where
  "transport_ok history cmd = None"

definition transport_down :: WebhookSender where
  "transport_down history cmd = Some (errors_New ''connection refused'')"

definition no_images :: ImageStore where
  "no_images alert = None"

definition fixed_template :: Template where
  "fixed_template =
     \<lparr> ExternalURL = ''https://example.test'',
       ExecuteTextString = (\<lambda>name as. (''Firing'', None)) \<rparr>"

definition factory_config :: "Json \<Rightarrow> FactoryConfig" where
  "factory_config settings =
     \<lparr> Config = channel_config settings,
       DecryptFunc = fallback_resolver,
       ImageStore = no_images,
       FactoryConfig.NotificationService = transport_ok,
       Template = fixed_template \<rparr>"

definition firing_alert :: Alert where
  "firing_alert = \<lparr> Labels = [], Annotations = [], Status = AlertFiring \<rparr>"

definition resolved_alert :: Alert where
  "resolved_alert = \<lparr> Labels = [], Annotations = [], Status = AlertResolved \<rparr>"

definition empty_world :: World where
  "empty_world = \<lparr> logs = [], sent = [] \<rparr>"

definition settings_empty :: Json where
  "settings_empty = JObject []"

definition settings_hook :: Json where
  "settings_hook = JObject [(''webhook_url'', JString ''https://example.test/hook'')]"

definition settings_room :: Json where
  "settings_room =
     JObject [(''url'', JString ''https://example.test''), (''room_id'', JString ''R1''),
              (''api_secret'', JString ''tok'')]"

definition settings_url_only :: Json where
  "settings_url_only = JObject [(''url'', JString ''https://example.test'')]"

definition settings_no_secret :: Json where
  "settings_no_secret =
     JObject [(''url'', JString ''https://example.test''), (''room_id'', JString ''R1'')]"

definition settings_legacy_room :: Json where
  "settings_legacy_room =
     JObject [(''url'', JString ''https://example.test''), (''webexToken'', JString ''tok''),
              (''roomId'', JString ''R1'')]"

definition settings_legacy_no_token :: Json where
  "settings_legacy_no_token = JObject [(''url'', JString ''https://example.test'')]"

definition settings_legacy_no_room :: Json where
  "settings_legacy_no_room =
     JObject [(''url'', JString ''https://example.test''), (''webexToken'', JString ''tok'')]"

definition hook_config :: WebexConfig_hook where
  "hook_config =
     \<lparr> WebexConfig_hook.NotificationChannelConfig = channel_config settings_hook,
       WebexConfig_hook.WebhookURL = ''https://example.test/hook'',
       WebexConfig_hook.Content = ''{{ template \"default.message\" . }}'' \<rparr>"

definition room_config :: WebexConfig_room where
  "room_config =
     \<lparr> WebexConfig_room.NotificationChannelConfig = channel_config settings_room,
       WebexConfig_room.URL = ''https://example.test'',
       WebexConfig_room.RoomID = ''R1'',
       WebexConfig_room.APISecret = ''tok'' \<rparr>"

text \<open>
  The same channel with the secret in the secure store: the plain setting \<open>api_secret\<close>
  is still \<open>tok\<close>, and the decrypt function resolves the secret to \<open>s3cr3t\<close>.
\<close>

definition channel_config_secure :: NotificationChannelConfig where
  "channel_config_secure =
     (channel_config settings_room)
       \<lparr> NotificationChannelConfig.SecureSettings := [(''api_secret'', ''s3cr3t'')] \<rparr>"

definition room_config_secure :: WebexConfig_room where
  "room_config_secure =
     \<lparr> WebexConfig_room.NotificationChannelConfig = channel_config_secure,
       WebexConfig_room.URL = ''https://example.test'',
       WebexConfig_room.RoomID = ''R1'',
       WebexConfig_room.APISecret = ''s3cr3t'' \<rparr>"

definition hook_notifier :: "WebhookSender \<Rightarrow> WebexNotifier_hook" where
  "hook_notifier sender = NewWebexNotifier_hook hook_config no_images sender fixed_template"

definition room_notifier :: "WebhookSender \<Rightarrow> WebexNotifier_room" where
  "room_notifier sender = NewWebexNotifier_room room_config no_images sender fixed_template"

definition legacy_hook_notifier :: WebexNotifier_legacy_hook where
  "legacy_hook_notifier =
     \<lparr> WebexNotifier_legacy_hook.NotifierBase =
         NewNotifierBase (alert_notification settings_hook) transport_ok,
       WebexNotifier_legacy_hook.WebhookURL = ''https://example.test/hook'',
       WebexNotifier_legacy_hook.Content = '''',
       WebexNotifier_legacy_hook.log = ''alerting.notifier.webex'' \<rparr>"

definition legacy_room_notifier :: WebexNotifier_legacy_room where
  "legacy_room_notifier =
     \<lparr> WebexNotifier_legacy_room.NotifierBase =
         NewNotifierBase (alert_notification settings_legacy_room) transport_ok,
       WebexNotifier_legacy_room.URL = ''https://example.test'',
       WebexNotifier_legacy_room.ApiToken = ''tok'',
       WebexNotifier_legacy_room.RoomId = ''R1'',
       WebexNotifier_legacy_room.log = ''alerting.notifier.webex'' \<rparr>"

definition eval_context :: "AlertStateType \<Rightarrow> string \<Rightarrow> EvalContext" where
  "eval_context st title =
     \<lparr> Rule = \<lparr> ID = 7, Rule.Name = ''cpu'', Message = ''load is high'', State = st \<rparr>,
       GetNotificationTitle = title \<rparr>"

text \<open>The two characters that \<open>json.Marshal\<close> writes for a line feed.\<close>

definition newline_escape :: string where
  "newline_escape = [CHR 0x5C, CHR ''n'']"

section \<open>Facts about the library functions and the steps of \<open>Notify\<close>\<close>

lemma utf8_2705: "utf8 0x2705 = [CHR 0xE2, CHR 0x9C, CHR 0x85]"
  by (simp add: utf8_def char_of_eq_iff)

lemma utf8_26A0: "utf8 0x26A0 = [CHR 0xE2, CHR 0x9A, CHR 0xA0]"
  by (simp add: utf8_def char_of_eq_iff)

lemma utf8_FE0F: "utf8 0xFE0F = [CHR 0xEF, CHR 0xB8, CHR 0x8F]"
  by (simp add: utf8_def char_of_eq_iff)

lemma utf8_2753: "utf8 0x2753 = [CHR 0xE2, CHR 0x9D, CHR 0x93]"
  by (simp add: utf8_def char_of_eq_iff)

lemma HasPrefix_append: "HasPrefix (p @ r) p"
  by (induction p) simp_all

lemma HasPrefix_iff: "HasPrefix s p \<longleftrightarrow> (\<exists>r. s = p @ r)"
proof (induction s p rule: HasPrefix.induct)
  case (1 s)
  then show ?case by simp
next
  case (2 p ps)
  then show ?case by simp
next
  case (3 c s p ps)
  then show ?case by auto
qed

lemma Contains_iff: "Contains s t \<longleftrightarrow> (\<exists>pre post. s = pre @ t @ post)"
proof (induction s)
  case Nil
  then show ?case by auto
next
  case (Cons c s)
  show ?case
  proof
    assume "Contains (c # s) t"
    then consider "HasPrefix (c # s) t" | "Contains s t" by auto
    then show "\<exists>pre post. c # s = pre @ t @ post"
    proof cases
      case 1
      then obtain r where "c # s = t @ r" using HasPrefix_iff by blast
      then have "c # s = [] @ t @ r" by simp
      then show ?thesis by blast
    next
      case 2
      then obtain pre post where "s = pre @ t @ post" using Cons.IH by blast
      then have "c # s = (c # pre) @ t @ post" by simp
      then show ?thesis by blast
    qed
  next
    assume "\<exists>pre post. c # s = pre @ t @ post"
    then obtain pre post where eq: "c # s = pre @ t @ post" by blast
    show "Contains (c # s) t"
    proof (cases pre)
      case Nil
      then have "HasPrefix (c # s) t" using eq HasPrefix_iff by auto
      then show ?thesis by simp
    next
      case (Cons d pre')
      then have "s = pre' @ t @ post" using eq by simp
      then have "Contains s t" using Cons.IH by blast
      then show ?thesis by simp
    qed
  qed
qed

lemma appendImage_appends: "\<exists>suffix. appendImage i img m = m @ suffix"
  by (simp add: appendImage_def)

lemma withStoredImages_appends:
  "\<exists>suffix. withStoredImages i store appendImage as m = m @ suffix"
proof (induction as arbitrary: i m)
  case Nil
  then show ?case by simp
next
  case (Cons a as)
  show ?case
  proof (cases "store a")
    case None
    then show ?thesis using Cons.IH by simp
  next
    case (Some img)
    obtain s1 where s1: "appendImage i img m = m @ s1"
      using appendImage_appends by blast
    obtain s2 where "withStoredImages (Suc i) store appendImage as (m @ s1) = (m @ s1) @ s2"
      using Cons.IH by blast
    then show ?thesis using Some s1 by simp
  qed
qed

lemma message_hook_shape:
  "\<exists>title rendered suffix. fst (message_hook tn as) =
     stateEmoji as @ title @ ''\<newline>\<newline>*Message:*\<newline>'' @ rendered
       @ ''\<newline>*URL:* '' @ Join [ExternalURL (WebexNotifier_hook.tmpl tn), ''/alerting/list'']
       @ ''\<newline>'' @ suffix"
proof -
  obtain title e1 where t1:
    "TmplText (WebexNotifier_hook.tmpl tn) as DefaultMessageTitleEmbed None = (title, e1)"
    by (cases "TmplText (WebexNotifier_hook.tmpl tn) as DefaultMessageTitleEmbed None") blast
  obtain rendered e2 where t2:
    "TmplText (WebexNotifier_hook.tmpl tn) as (WebexNotifier_hook.Content tn) e1 = (rendered, e2)"
    by (cases "TmplText (WebexNotifier_hook.tmpl tn) as (WebexNotifier_hook.Content tn) e1") blast
  obtain suffix where "withStoredImages 0 (WebexNotifier_hook.images tn) appendImage as
        (stateEmoji as @ title @ ''\<newline>\<newline>*Message:*\<newline>'' @ rendered
           @ ''\<newline>*URL:* '' @ Join [ExternalURL (WebexNotifier_hook.tmpl tn), ''/alerting/list'']
           @ ''\<newline>'')
      = (stateEmoji as @ title @ ''\<newline>\<newline>*Message:*\<newline>'' @ rendered
           @ ''\<newline>*URL:* '' @ Join [ExternalURL (WebexNotifier_hook.tmpl tn), ''/alerting/list'']
           @ ''\<newline>'') @ suffix"
    using withStoredImages_appends by blast
  then have "fst (message_hook tn as) =
     stateEmoji as @ title @ ''\<newline>\<newline>*Message:*\<newline>'' @ rendered
       @ ''\<newline>*URL:* '' @ Join [ExternalURL (WebexNotifier_hook.tmpl tn), ''/alerting/list'']
       @ ''\<newline>'' @ suffix"
    by (simp add: message_hook_def t1 t2)
  then show ?thesis by blast
qed

lemma message_room_shape:
  "\<exists>title rendered suffix. fst (message_room tn as) =
     stateEmoji as @ title @ ''\<newline>\<newline>*Message:*\<newline>'' @ rendered
       @ ''\<newline>*URL:* '' @ Join [ExternalURL (WebexNotifier_room.tmpl tn), ''/alerting/list'']
       @ ''\<newline>'' @ suffix"
proof -
  obtain title e1 where t1:
    "TmplText (WebexNotifier_room.tmpl tn) as DefaultMessageTitleEmbed None = (title, e1)"
    by (cases "TmplText (WebexNotifier_room.tmpl tn) as DefaultMessageTitleEmbed None") blast
  obtain rendered e2 where t2:
    "TmplText (WebexNotifier_room.tmpl tn) as ''{{ template \"default.message\" . }}'' e1
       = (rendered, e2)"
    by (cases "TmplText (WebexNotifier_room.tmpl tn) as
                 ''{{ template \"default.message\" . }}'' e1") blast
  obtain suffix where "withStoredImages 0 (WebexNotifier_room.images tn) appendImage as
        (stateEmoji as @ title @ ''\<newline>\<newline>*Message:*\<newline>'' @ rendered
           @ ''\<newline>*URL:* '' @ Join [ExternalURL (WebexNotifier_room.tmpl tn), ''/alerting/list'']
           @ ''\<newline>'')
      = (stateEmoji as @ title @ ''\<newline>\<newline>*Message:*\<newline>'' @ rendered
           @ ''\<newline>*URL:* '' @ Join [ExternalURL (WebexNotifier_room.tmpl tn), ''/alerting/list'']
           @ ''\<newline>'') @ suffix"
    using withStoredImages_appends by blast
  then have "fst (message_room tn as) =
     stateEmoji as @ title @ ''\<newline>\<newline>*Message:*\<newline>'' @ rendered
       @ ''\<newline>*URL:* '' @ Join [ExternalURL (WebexNotifier_room.tmpl tn), ''/alerting/list'']
       @ ''\<newline>'' @ suffix"
    by (simp add: message_room_def t1 t2)
  then show ?thesis by blast
qed

lemma message_hook_prefix: "HasPrefix (fst (message_hook tn as)) (stateEmoji as)"
proof -
  obtain title rendered suffix where "fst (message_hook tn as) =
     stateEmoji as @ title @ ''\<newline>\<newline>*Message:*\<newline>'' @ rendered
       @ ''\<newline>*URL:* '' @ Join [ExternalURL (WebexNotifier_hook.tmpl tn), ''/alerting/list'']
       @ ''\<newline>'' @ suffix"
    using message_hook_shape by blast
  then show ?thesis by (simp only: HasPrefix_append)
qed

lemma message_room_prefix: "HasPrefix (fst (message_room tn as)) (stateEmoji as)"
proof -
  obtain title rendered suffix where "fst (message_room tn as) =
     stateEmoji as @ title @ ''\<newline>\<newline>*Message:*\<newline>'' @ rendered
       @ ''\<newline>*URL:* '' @ Join [ExternalURL (WebexNotifier_room.tmpl tn), ''/alerting/list'']
       @ ''\<newline>'' @ suffix"
    using message_room_shape by blast
  then show ?thesis by (simp only: HasPrefix_append)
qed

lemma message_hook_link:
  "Contains (fst (message_hook tn as))
     (''*URL:* '' @ Join [ExternalURL (WebexNotifier_hook.tmpl tn), ''/alerting/list''] @ ''\<newline>'')"
proof -
  obtain title rendered suffix where "fst (message_hook tn as) =
     stateEmoji as @ title @ ''\<newline>\<newline>*Message:*\<newline>'' @ rendered
       @ ''\<newline>*URL:* '' @ Join [ExternalURL (WebexNotifier_hook.tmpl tn), ''/alerting/list'']
       @ ''\<newline>'' @ suffix"
    using message_hook_shape by blast
  then have "fst (message_hook tn as) =
     (stateEmoji as @ title @ ''\<newline>\<newline>*Message:*\<newline>'' @ rendered @ ''\<newline>'')
       @ (''*URL:* '' @ Join [ExternalURL (WebexNotifier_hook.tmpl tn), ''/alerting/list'']
            @ ''\<newline>'')
       @ suffix"
    by simp
  then show ?thesis unfolding Contains_iff by blast
qed

lemma message_room_link:
  "Contains (fst (message_room tn as))
     (''*URL:* '' @ Join [ExternalURL (WebexNotifier_room.tmpl tn), ''/alerting/list''] @ ''\<newline>'')"
proof -
  obtain title rendered suffix where "fst (message_room tn as) =
     stateEmoji as @ title @ ''\<newline>\<newline>*Message:*\<newline>'' @ rendered
       @ ''\<newline>*URL:* '' @ Join [ExternalURL (WebexNotifier_room.tmpl tn), ''/alerting/list'']
       @ ''\<newline>'' @ suffix"
    using message_room_shape by blast
  then have "fst (message_room tn as) =
     (stateEmoji as @ title @ ''\<newline>\<newline>*Message:*\<newline>'' @ rendered @ ''\<newline>'')
       @ (''*URL:* '' @ Join [ExternalURL (WebexNotifier_room.tmpl tn), ''/alerting/list'']
            @ ''\<newline>'')
       @ suffix"
    by simp
  then show ?thesis unfolding Contains_iff by blast
qed

lemma all_resolved_status:
  "list_all (\<lambda>a. Status a = AlertResolved) as \<Longrightarrow> Alerts_Status as = AlertResolved"
  by (simp add: Alerts_Status_def HasFiring_def list_all_iff list_ex_iff)

lemma some_firing_status:
  "list_ex (\<lambda>a. Status a = AlertFiring) as \<Longrightarrow> Alerts_Status as = AlertFiring"
  by (force simp: Alerts_Status_def HasFiring_def list_ex_iff)

lemma sent_write_log: "sent (write_log l lvl m args w) = sent w"
  by (simp add: write_log_def)

lemma Notify_hook_sent: "sent (snd (Notify_hook tn as w)) = sent w @ [request_hook tn as]"
  by (simp add: Notify_hook_def send_def Let_def sent_write_log split: option.splits)

lemma Notify_room_sent: "sent (snd (Notify_room tn as w)) = sent w @ [request_room tn as]"
  by (simp add: Notify_room_def send_def Let_def sent_write_log split: option.splits)

lemma Notify_hook_result:
  "fst (Notify_hook tn as w) =
     (case WebexNotifier_hook.ns tn (sent w) (request_hook tn as) of
        None \<Rightarrow> (True, None) | Some err \<Rightarrow> (False, Some err))"
  by (simp add: Notify_hook_def send_def Let_def sent_write_log split: option.splits)

lemma Notify_room_result:
  "fst (Notify_room tn as w) =
     (case WebexNotifier_room.ns tn (sent w) (request_room tn as) of
        None \<Rightarrow> (True, None) | Some err \<Rightarrow> (False, Some err))"
  by (simp add: Notify_room_def send_def Let_def sent_write_log split: option.splits)

lemma Notify_legacy_hook_sent:
  "sent (snd (Notify_legacy_hook wn ec w)) = sent w @ [request_legacy_hook wn ec]"
  by (simp add: Notify_legacy_hook_def send_def Let_def sent_write_log split: option.splits)

lemma Notify_legacy_room_sent:
  "sent (snd (Notify_legacy_room wn ec w)) = sent w @ [request_legacy_room wn ec]"
  by (simp add: Notify_legacy_room_def send_def Let_def sent_write_log split: option.splits)

lemma Notify_legacy_hook_result:
  "fst (Notify_legacy_hook wn ec w) =
     NotifierBase.NotificationService (WebexNotifier_legacy_hook.NotifierBase wn) (sent w)
       (request_legacy_hook wn ec)"
  by (simp add: Notify_legacy_hook_def send_def Let_def sent_write_log split: option.splits)

lemma Notify_legacy_room_result:
  "fst (Notify_legacy_room wn ec w) =
     NotifierBase.NotificationService (WebexNotifier_legacy_room.NotifierBase wn) (sent w)
       (request_legacy_room wn ec)"
  by (simp add: Notify_legacy_room_def send_def Let_def sent_write_log split: option.splits)

lemma Marshal_markdown:
  "Marshal (Set simplejson_New ''markdown'' (JString m))
     = ''{\"markdown\":'' @ encode_string m @ ''}''"
  by (simp add: simplejson_New_def sorted_entries_def encode_string_def escape_byte_def)

lemma Marshal_room:
  "Marshal (JObject [(''roomId'', JString r), (''markdown'', JString m)]) =
     ''{\"markdown\":'' @ encode_string m @ '',\"roomId\":'' @ encode_string r @ ''}''"
  by (simp add: sorted_entries_def encode_string_def escape_byte_def)

lemma Marshal_empty: "Marshal simplejson_New = ''{}''"
  by (simp add: simplejson_New_def sorted_entries_def)

lemma request_hook_body:
  "Body (request_hook tn as) = ''{\"markdown\":'' @ encode_string (fst (message_hook tn as)) @ ''}''"
  by (simp add: request_hook_def Let_def Marshal_markdown del: Marshal.simps Set.simps)

lemma request_room_body:
  "Body (request_room tn as) =
     ''{\"markdown\":'' @ encode_string (fst (message_room tn as))
       @ '',\"roomId\":'' @ encode_string (WebexNotifier_room.RoomID tn) @ ''}''"
  by (simp add: request_room_def Let_def Marshal_room del: Marshal.simps)

lemma request_legacy_room_body:
  "Body (request_legacy_room wn ec) =
     ''{\"markdown\":'' @ encode_string (message_legacy ec)
       @ '',\"roomId\":'' @ encode_string (WebexNotifier_legacy_room.RoomId wn) @ ''}''"
  by (simp add: request_legacy_room_def Let_def Marshal_room del: Marshal.simps)

lemma request_legacy_hook_body:
  "WebexNotifier_legacy_hook.Content wn \<noteq> '''' \<Longrightarrow>
   Body (request_legacy_hook wn ec) = ''{\"markdown\":'' @ encode_string (message_legacy ec) @ ''}''"
  by (simp add: request_legacy_hook_def Let_def Marshal_markdown del: Marshal.simps Set.simps)

lemma room_config_ok:
  assumes "\<not> missing (NotificationChannelConfig.Settings c) ''url''"
    and "\<not> missing (NotificationChannelConfig.Settings c) ''room_id''"
    and "resolved_secret c dec \<noteq> ''''"
  shows "NewWebexConfig_room c dec =
     Inr \<lparr> WebexConfig_room.NotificationChannelConfig = c,
           WebexConfig_room.URL = MustString (Get (NotificationChannelConfig.Settings c) ''url'') '''',
           WebexConfig_room.RoomID =
             MustString (Get (NotificationChannelConfig.Settings c) ''room_id'') '''',
           WebexConfig_room.APISecret = resolved_secret c dec \<rparr>"
  using assms by (simp add: NewWebexConfig_room_def missing_def resolved_secret_def Let_def)

lemma room_config_fields:
  assumes "NewWebexConfig_room c dec = Inr cfg"
  shows "WebexConfig_room.RoomID cfg
           = MustString (Get (NotificationChannelConfig.Settings c) ''room_id'') ''''"
    and "WebexConfig_room.APISecret cfg = resolved_secret c dec"
    and "WebexConfig_room.URL cfg
           = MustString (Get (NotificationChannelConfig.Settings c) ''url'') ''''"
    and "resolved_secret c dec \<noteq> ''''"
  using assms
  by (auto simp: NewWebexConfig_room_def resolved_secret_def Let_def split: if_splits)

lemma legacy_room_ok:
  assumes "\<not> missing (AlertNotification.Settings m) ''url''"
    and "\<not> missing (AlertNotification.Settings m) ''webexToken''"
    and "\<not> missing (AlertNotification.Settings m) ''roomId''"
  shows "NewWebexNotifier_legacy_room m fn sender =
     Inr \<lparr> WebexNotifier_legacy_room.NotifierBase = NewNotifierBase m sender,
           WebexNotifier_legacy_room.URL = MustString (Get (AlertNotification.Settings m) ''url'') '''',
           WebexNotifier_legacy_room.ApiToken =
             MustString (Get (AlertNotification.Settings m) ''webexToken'') '''',
           WebexNotifier_legacy_room.RoomId =
             MustString (Get (AlertNotification.Settings m) ''roomId'') '''',
           WebexNotifier_legacy_room.log = ''alerting.notifier.webex'' \<rparr>"
  using assms by (simp add: NewWebexNotifier_legacy_room_def missing_def Let_def)

lemma legacy_room_fields:
  assumes "NewWebexNotifier_legacy_room m fn sender = Inr wn"
  shows "WebexNotifier_legacy_room.RoomId wn
           = MustString (Get (AlertNotification.Settings m) ''roomId'') ''''"
    and "WebexNotifier_legacy_room.ApiToken wn
           = MustString (Get (AlertNotification.Settings m) ''webexToken'') ''''"
    and "WebexNotifier_legacy_room.URL wn
           = MustString (Get (AlertNotification.Settings m) ''url'') ''''"
  using assms
  by (auto simp: NewWebexNotifier_legacy_room_def Let_def split: if_splits)

lemma absent_Get: "absent settings key \<Longrightarrow> Get settings key = JNull"
  by (cases settings) (simp_all add: absent_def)

lemma fixed_message_room:
  "fst (message_room (room_notifier sender) [firing_alert]) =
     [CHR 0xE2, CHR 0x9A, CHR 0xA0, CHR 0xEF, CHR 0xB8, CHR 0x8F]
       @ '' Firing\<newline>\<newline>*Message:*\<newline>Firing\<newline>*URL:* https:/example.test/alerting/list\<newline>''"
  by (simp add: message_room_def room_notifier_def NewWebexNotifier_room_def TmplText_def
        fixed_template_def no_images_def stateEmoji_def Alerts_Status_def HasFiring_def
        firing_alert_def utf8_26A0 utf8_FE0F Join_def Clean_def at_separator_def at_dotdot_def)

lemma fixed_message_hook:
  "fst (message_hook (hook_notifier sender) [resolved_alert]) =
     [CHR 0xE2, CHR 0x9C, CHR 0x85]
       @ '' Firing\<newline>\<newline>*Message:*\<newline>Firing\<newline>*URL:* https:/example.test/alerting/list\<newline>''"
  by (simp add: message_hook_def hook_notifier_def NewWebexNotifier_hook_def TmplText_def
        fixed_template_def no_images_def stateEmoji_def Alerts_Status_def HasFiring_def
        resolved_alert_def utf8_2705 Join_def Clean_def at_separator_def at_dotdot_def)

lemma encode_fixed_message:
  "encode_string (fst (message_room (room_notifier sender) [firing_alert]))
   = ''\"'' @ [CHR 0xE2, CHR 0x9A, CHR 0xA0, CHR 0xEF, CHR 0xB8, CHR 0x8F] @ '' Firing''
       @ newline_escape @ newline_escape @ ''*Message:*'' @ newline_escape @ ''Firing''
       @ newline_escape @ ''*URL:* https:/example.test/alerting/list'' @ newline_escape @ ''\"''"
  unfolding fixed_message_room
  by (simp add: encode_string_def escape_byte_def DecodeRune_size_def continuation_def
        newline_escape_def)

lemma factory_hook_built:
  "WebexFactory_hook fc = Inr tn \<Longrightarrow>
   SendResolved_hook tn = (\<not> NotificationChannelConfig.DisableResolveMessage (Config fc))"
  by (auto simp: WebexFactory_hook_def NewWebexConfig_hook_def Let_def SendResolved_hook_def
        NewWebexNotifier_hook_def GetDisableResolveMessage_def NewBase_def
        split: if_splits sum.splits)

lemma factory_room_built:
  "WebexFactory_room fc = Inr tn \<Longrightarrow>
   SendResolved_room tn = (\<not> NotificationChannelConfig.DisableResolveMessage (Config fc))"
  by (auto simp: WebexFactory_room_def NewWebexConfig_room_def Let_def SendResolved_room_def
        NewWebexNotifier_room_def GetDisableResolveMessage_def NewBase_def
        split: if_splits sum.splits)

lemma hook_missing:
  "missing (NotificationChannelConfig.Settings c) ''webhook_url'' \<Longrightarrow>
   NewWebexConfig_hook c dec = Inl (errors_New ''could not find Webex Webhook URL in settings'')"
  by (simp add: NewWebexConfig_hook_def missing_def)

lemma room_missing_url:
  "missing (NotificationChannelConfig.Settings c) ''url'' \<Longrightarrow>
   NewWebexConfig_room c dec = Inl (errors_New ''could not find Webex URL in settings'')"
  by (simp add: NewWebexConfig_room_def missing_def)

lemma room_missing_room_id:
  "\<not> missing (NotificationChannelConfig.Settings c) ''url'' \<Longrightarrow>
   missing (NotificationChannelConfig.Settings c) ''room_id'' \<Longrightarrow>
   NewWebexConfig_room c dec = Inl (errors_New ''could not find Webex Room ID in settings'')"
  by (simp add: NewWebexConfig_room_def missing_def)

lemma room_missing_secret:
  "\<not> missing (NotificationChannelConfig.Settings c) ''url'' \<Longrightarrow>
   \<not> missing (NotificationChannelConfig.Settings c) ''room_id'' \<Longrightarrow>
   resolved_secret c dec = '''' \<Longrightarrow>
   NewWebexConfig_room c dec = Inl (errors_New ''could not find Webex API secret in settings'')"
  by (simp add: NewWebexConfig_room_def missing_def resolved_secret_def Let_def)

lemma room_missing_any:
  "missing (NotificationChannelConfig.Settings c) ''url''
   \<or> missing (NotificationChannelConfig.Settings c) ''room_id''
   \<or> resolved_secret c dec = '''' \<Longrightarrow>
   isl (NewWebexConfig_room c dec)"
  by (auto simp: NewWebexConfig_room_def missing_def resolved_secret_def Let_def)

lemma factory_hook_missing:
  "missing (NotificationChannelConfig.Settings (Config fc)) ''webhook_url'' \<Longrightarrow>
   WebexFactory_hook fc =
     Inl \<lparr> Reason = ''could not find Webex Webhook URL in settings'', Cfg = Config fc \<rparr>"
  by (simp add: WebexFactory_hook_def hook_missing)

lemma factory_room_missing:
  "missing (NotificationChannelConfig.Settings (Config fc)) ''url''
   \<or> missing (NotificationChannelConfig.Settings (Config fc)) ''room_id''
   \<or> resolved_secret (Config fc) (DecryptFunc fc) = '''' \<Longrightarrow>
   isl (WebexFactory_room fc)"
  using room_missing_any [of "Config fc" "DecryptFunc fc"]
  by (cases "NewWebexConfig_room (Config fc) (DecryptFunc fc)")
     (simp_all add: WebexFactory_room_def)

lemma legacy_hook_missing:
  "missing (AlertNotification.Settings m) ''webhook_url'' \<Longrightarrow>
   NewWebexNotifier_legacy_hook m fn sender
     = Inl (ValidationError ''Could not find webhook_url property in settings'')"
  by (simp add: NewWebexNotifier_legacy_hook_def missing_def)

lemma legacy_room_missing_url:
  "missing (AlertNotification.Settings m) ''url'' \<Longrightarrow>
   NewWebexNotifier_legacy_room m fn sender
     = Inl (ValidationError ''Could not find url property in settings'')"
  by (simp add: NewWebexNotifier_legacy_room_def missing_def)

lemma legacy_room_missing_token:
  "\<not> missing (AlertNotification.Settings m) ''url'' \<Longrightarrow>
   missing (AlertNotification.Settings m) ''webexToken'' \<Longrightarrow>
   NewWebexNotifier_legacy_room m fn sender
     = Inl (ValidationError ''Could not find webexToken property in settings'')"
  by (simp add: NewWebexNotifier_legacy_room_def missing_def)

lemma legacy_room_missing_room:
  "\<not> missing (AlertNotification.Settings m) ''url'' \<Longrightarrow>
   \<not> missing (AlertNotification.Settings m) ''webexToken'' \<Longrightarrow>
   missing (AlertNotification.Settings m) ''roomId'' \<Longrightarrow>
   NewWebexNotifier_legacy_room m fn sender
     = Inl (ValidationError ''Could not find roomId property in settings'')"
  by (simp add: NewWebexNotifier_legacy_room_def missing_def)

lemma room_first_missing:
  "missing_fields_room c dec \<noteq> [] \<Longrightarrow>
   NewWebexConfig_room c dec =
     Inl (errors_New (''could not find Webex '' @ hd (missing_fields_room c dec)
                        @ '' in settings''))"
  by (simp add: missing_fields_room_def NewWebexConfig_room_def missing_def
        resolved_secret_def Let_def split: if_splits)

lemma legacy_room_first_missing:
  "missing_fields_legacy_room m \<noteq> [] \<Longrightarrow>
   NewWebexNotifier_legacy_room m fn sender =
     Inl (ValidationError (''Could not find '' @ hd (missing_fields_legacy_room m)
                             @ '' property in settings''))"
  by (simp add: missing_fields_legacy_room_def NewWebexNotifier_legacy_room_def missing_def
        Let_def split: if_splits)

lemma stateEmoji_legacy_default:
  "st \<noteq> AlertStateOK \<Longrightarrow> st \<noteq> AlertStateNoData \<Longrightarrow> st \<noteq> AlertStateAlerting
   \<Longrightarrow> stateEmoji_legacy st = ''''"
  by (cases st) simp_all

lemma message_legacy_other_states:
  "State (Rule ec) \<noteq> AlertStateOK \<Longrightarrow> State (Rule ec) \<noteq> AlertStateNoData
   \<Longrightarrow> State (Rule ec) \<noteq> AlertStateAlerting
   \<Longrightarrow> message_legacy ec =
         GetNotificationTitle ec @ ''\<newline>\<newline>*State:* '' @ Rule.Name (Rule ec)
           @ ''\<newline>*Message:* '' @ Message (Rule ec) @ ''\<newline>''"
  by (simp add: message_legacy_def stateEmoji_legacy_default)

lemma legacy_message_has_no_link:
  "\<not> Contains (message_legacy (eval_context AlertStateAlerting ''[Alerting] cpu''))
       ''/alerting/list''"
  by (simp add: message_legacy_def eval_context_def utf8_26A0 utf8_FE0F)

section \<open>The claims\<close>

text \<open>
  C1. Whenever a required field is missing or coerces to the empty string, the
  constructor returns an error and no configuration or notifier: the webhook URL for the
  two webhook channels; the URL, the room ID and the resolved API secret for the room-API
  channel; \<open>url\<close>, \<open>webexToken\<close> and \<open>roomId\<close> for the legacy room-API notifier. The
  message of the error names a missing field, namely the first one in the order in which
  the constructor checks them, and the factories return an error in place of a notifier.
  The last two parts say it for any set of missing fields at once.
\<close>

theorem C1_missing_required_field_is_rejected:
  "(missing (NotificationChannelConfig.Settings c) ''webhook_url'' \<longrightarrow>
      NewWebexConfig_hook c dec
        = Inl (errors_New ''could not find Webex Webhook URL in settings''))
   \<and> (missing (NotificationChannelConfig.Settings c) ''url'' \<longrightarrow>
      NewWebexConfig_room c dec = Inl (errors_New ''could not find Webex URL in settings''))
   \<and> (\<not> missing (NotificationChannelConfig.Settings c) ''url''
        \<and> missing (NotificationChannelConfig.Settings c) ''room_id'' \<longrightarrow>
      NewWebexConfig_room c dec = Inl (errors_New ''could not find Webex Room ID in settings''))
   \<and> (\<not> missing (NotificationChannelConfig.Settings c) ''url''
        \<and> \<not> missing (NotificationChannelConfig.Settings c) ''room_id''
        \<and> resolved_secret c dec = '''' \<longrightarrow>
      NewWebexConfig_room c dec
        = Inl (errors_New ''could not find Webex API secret in settings''))
   \<and> (missing (NotificationChannelConfig.Settings c) ''url''
        \<or> missing (NotificationChannelConfig.Settings c) ''room_id''
        \<or> resolved_secret c dec = '''' \<longrightarrow>
      isl (NewWebexConfig_room c dec))
   \<and> (missing (NotificationChannelConfig.Settings (Config fc)) ''webhook_url'' \<longrightarrow>
      WebexFactory_hook fc =
        Inl \<lparr> Reason = ''could not find Webex Webhook URL in settings'', Cfg = Config fc \<rparr>)
   \<and> (missing (NotificationChannelConfig.Settings (Config fc)) ''url''
        \<or> missing (NotificationChannelConfig.Settings (Config fc)) ''room_id''
        \<or> resolved_secret (Config fc) (DecryptFunc fc) = '''' \<longrightarrow>
      isl (WebexFactory_room fc))
   \<and> (missing (AlertNotification.Settings m) ''webhook_url'' \<longrightarrow>
      NewWebexNotifier_legacy_hook m fn sender
        = Inl (ValidationError ''Could not find webhook_url property in settings''))
   \<and> (missing (AlertNotification.Settings m) ''url'' \<longrightarrow>
      NewWebexNotifier_legacy_room m fn sender
        = Inl (ValidationError ''Could not find url property in settings''))
   \<and> (\<not> missing (AlertNotification.Settings m) ''url''
        \<and> missing (AlertNotification.Settings m) ''webexToken'' \<longrightarrow>
      NewWebexNotifier_legacy_room m fn sender
        = Inl (ValidationError ''Could not find webexToken property in settings''))
   \<and> (\<not> missing (AlertNotification.Settings m) ''url''
        \<and> \<not> missing (AlertNotification.Settings m) ''webexToken''
        \<and> missing (AlertNotification.Settings m) ''roomId'' \<longrightarrow>
      NewWebexNotifier_legacy_room m fn sender
        = Inl (ValidationError ''Could not find roomId property in settings''))
   \<and> (missing_fields_room c dec \<noteq> [] \<longrightarrow>
      NewWebexConfig_room c dec =
        Inl (errors_New (''could not find Webex '' @ hd (missing_fields_room c dec)
                           @ '' in settings'')))
   \<and> (missing_fields_legacy_room m \<noteq> [] \<longrightarrow>
      NewWebexNotifier_legacy_room m fn sender =
        Inl (ValidationError (''Could not find '' @ hd (missing_fields_legacy_room m)
                                @ '' property in settings'')))"
  by (intro conjI impI; (elim conjE)?;
      (rule hook_missing room_missing_url room_missing_room_id room_missing_secret
         room_missing_any factory_hook_missing factory_room_missing legacy_hook_missing
         legacy_room_missing_url legacy_room_missing_token legacy_room_missing_room
         room_first_missing legacy_room_first_missing;
       assumption))

theorem C1_witness:
  "missing settings_empty ''webhook_url''
   \<and> missing_fields_room (channel_config settings_empty) fallback_resolver
        = [''URL'', ''Room ID'', ''API secret'']
   \<and> missing_fields_legacy_room (alert_notification settings_empty)
        = [''url'', ''webexToken'', ''roomId'']
   \<and> missing settings_empty ''url''
   \<and> \<not> missing settings_url_only ''url'' \<and> missing settings_url_only ''room_id''
   \<and> \<not> missing settings_no_secret ''url'' \<and> \<not> missing settings_no_secret ''room_id''
   \<and> resolved_secret (channel_config settings_no_secret) fallback_resolver = ''''
   \<and> \<not> missing settings_legacy_no_token ''url'' \<and> missing settings_legacy_no_token ''webexToken''
   \<and> \<not> missing settings_legacy_no_room ''webexToken'' \<and> missing settings_legacy_no_room ''roomId''
   \<and> NewWebexConfig_hook (channel_config settings_empty) fallback_resolver
        = Inl (errors_New ''could not find Webex Webhook URL in settings'')
   \<and> NewWebexConfig_room (channel_config settings_empty) fallback_resolver
        = Inl (errors_New ''could not find Webex URL in settings'')
   \<and> NewWebexConfig_room (channel_config settings_url_only) fallback_resolver
        = Inl (errors_New ''could not find Webex Room ID in settings'')
   \<and> NewWebexConfig_room (channel_config settings_no_secret) fallback_resolver
        = Inl (errors_New ''could not find Webex API secret in settings'')
   \<and> isl (NewWebexConfig_room (channel_config settings_no_secret) fallback_resolver)
   \<and> WebexFactory_hook (factory_config settings_empty) =
        Inl \<lparr> Reason = ''could not find Webex Webhook URL in settings'',
              Cfg = channel_config settings_empty \<rparr>
   \<and> isl (WebexFactory_room (factory_config settings_empty))
   \<and> NewWebexNotifier_legacy_hook (alert_notification settings_empty) fallback_resolver
          transport_ok
        = Inl (ValidationError ''Could not find webhook_url property in settings'')
   \<and> NewWebexNotifier_legacy_room (alert_notification settings_empty) fallback_resolver
          transport_ok
        = Inl (ValidationError ''Could not find url property in settings'')
   \<and> NewWebexNotifier_legacy_room (alert_notification settings_legacy_no_token)
          fallback_resolver transport_ok
        = Inl (ValidationError ''Could not find webexToken property in settings'')
   \<and> NewWebexNotifier_legacy_room (alert_notification settings_legacy_no_room)
          fallback_resolver transport_ok
        = Inl (ValidationError ''Could not find roomId property in settings'')"
proof -
  have s: "NotificationChannelConfig.Settings (channel_config j) = j"
    "AlertNotification.Settings (alert_notification j) = j"
    "Config (factory_config j) = channel_config j" for j
    by (simp_all add: channel_config_def alert_notification_def factory_config_def)
  have h: "missing settings_empty ''webhook_url''"
    "missing settings_empty ''url''"
    "\<not> missing settings_url_only ''url''" "missing settings_url_only ''room_id''"
    "\<not> missing settings_no_secret ''url''" "\<not> missing settings_no_secret ''room_id''"
    "resolved_secret (channel_config settings_no_secret) fallback_resolver = ''''"
    "\<not> missing settings_legacy_no_token ''url''" "missing settings_legacy_no_token ''webexToken''"
    "\<not> missing settings_legacy_no_room ''url''"
    "\<not> missing settings_legacy_no_room ''webexToken''" "missing settings_legacy_no_room ''roomId''"
    by (simp_all add: missing_def settings_empty_def settings_url_only_def
          settings_no_secret_def settings_legacy_no_token_def settings_legacy_no_room_def
          resolved_secret_def fallback_resolver_def channel_config_def)
  have f: "missing_fields_room (channel_config settings_empty) fallback_resolver
        = [''URL'', ''Room ID'', ''API secret'']"
    "missing_fields_legacy_room (alert_notification settings_empty)
        = [''url'', ''webexToken'', ''roomId'']"
    by (simp_all add: missing_fields_room_def missing_fields_legacy_room_def missing_def
          resolved_secret_def fallback_resolver_def channel_config_def alert_notification_def
          settings_empty_def)
  note t1 = C1_missing_required_field_is_rejected
    [where c = "channel_config settings_empty" and dec = fallback_resolver
       and fc = "factory_config settings_empty" and m = "alert_notification settings_empty"
       and fn = fallback_resolver and sender = transport_ok, unfolded s]
  note t2 = C1_missing_required_field_is_rejected
    [where c = "channel_config settings_url_only" and dec = fallback_resolver
       and m = "alert_notification settings_legacy_no_token"
       and fn = fallback_resolver and sender = transport_ok, unfolded s]
  note t3 = C1_missing_required_field_is_rejected
    [where c = "channel_config settings_no_secret" and dec = fallback_resolver
       and m = "alert_notification settings_legacy_no_room"
       and fn = fallback_resolver and sender = transport_ok, unfolded s]
  show ?thesis
    using h f t1 t2 t3 by simp
qed

text \<open>
  C2. For every notifier built by the constructors or the factories of the two
  unified-alerting channels, \<open>SendResolved\<close> is the negation of the flag
  \<open>DisableResolveMessage\<close> of the configuration: it returns false if and only if the flag
  is true.
\<close>

theorem C2_send_resolved_negates_flag:
  "SendResolved_hook (NewWebexNotifier_hook hc store sender t)
     = (\<not> NotificationChannelConfig.DisableResolveMessage
            (WebexConfig_hook.NotificationChannelConfig hc))
   \<and> SendResolved_room (NewWebexNotifier_room rc store sender t)
     = (\<not> NotificationChannelConfig.DisableResolveMessage
            (WebexConfig_room.NotificationChannelConfig rc))
   \<and> (SendResolved_hook (NewWebexNotifier_hook hc store sender t) = False
        \<longleftrightarrow> NotificationChannelConfig.DisableResolveMessage
              (WebexConfig_hook.NotificationChannelConfig hc) = True)
   \<and> (SendResolved_room (NewWebexNotifier_room rc store sender t) = False
        \<longleftrightarrow> NotificationChannelConfig.DisableResolveMessage
              (WebexConfig_room.NotificationChannelConfig rc) = True)
   \<and> (WebexFactory_hook fc = Inr th \<longrightarrow>
        SendResolved_hook th = (\<not> NotificationChannelConfig.DisableResolveMessage (Config fc)))
   \<and> (WebexFactory_room fc = Inr tr \<longrightarrow>
        SendResolved_room tr = (\<not> NotificationChannelConfig.DisableResolveMessage (Config fc)))"
  using factory_hook_built [of fc th] factory_room_built [of fc tr]
  by (simp add: SendResolved_hook_def SendResolved_room_def NewWebexNotifier_hook_def
        NewWebexNotifier_room_def GetDisableResolveMessage_def NewBase_def)

theorem C2_witness:
  "WebexFactory_hook (factory_config settings_hook) = Inr (hook_notifier transport_ok)
   \<and> WebexFactory_room (factory_config settings_room) = Inr (room_notifier transport_ok)
   \<and> SendResolved_hook (hook_notifier transport_ok) = True
   \<and> SendResolved_room (room_notifier transport_ok) = True
   \<and> SendResolved_room
        (NewWebexNotifier_room
           (room_config\<lparr> WebexConfig_room.NotificationChannelConfig :=
              (channel_config settings_room)
                \<lparr> NotificationChannelConfig.DisableResolveMessage := True \<rparr> \<rparr>)
           no_images transport_ok fixed_template) = False"
proof -
  have fh: "WebexFactory_hook (factory_config settings_hook) = Inr (hook_notifier transport_ok)"
    by (simp add: WebexFactory_hook_def NewWebexConfig_hook_def factory_config_def
          channel_config_def settings_hook_def hook_notifier_def hook_config_def Let_def)
  have fr: "WebexFactory_room (factory_config settings_room) = Inr (room_notifier transport_ok)"
    by (simp add: WebexFactory_room_def NewWebexConfig_room_def factory_config_def
          channel_config_def settings_room_def room_notifier_def room_config_def
          fallback_resolver_def Let_def)
  have d: "NotificationChannelConfig.DisableResolveMessage (Config (factory_config j)) = False"
    for j
    by (simp add: factory_config_def channel_config_def)
  note t1 = C2_send_resolved_negates_flag
      [where hc = hook_config
         and rc = "room_config\<lparr> WebexConfig_room.NotificationChannelConfig :=
              (channel_config settings_room)
                \<lparr> NotificationChannelConfig.DisableResolveMessage := True \<rparr> \<rparr>"
         and store = no_images and sender = transport_ok and t = fixed_template
         and fc = "factory_config settings_hook" and th = "hook_notifier transport_ok"
         and tr = "room_notifier transport_ok"]
  note t2 = C2_send_resolved_negates_flag
      [where hc = hook_config and rc = room_config and store = no_images
         and sender = transport_ok and t = fixed_template
         and fc = "factory_config settings_room" and th = "hook_notifier transport_ok"
         and tr = "room_notifier transport_ok"]
  have a: "SendResolved_hook (hook_notifier transport_ok) = True"
    using t1 fh d by simp
  have b: "SendResolved_room (room_notifier transport_ok) = True"
    using t2 fr d by simp
  have c: "SendResolved_room
        (NewWebexNotifier_room
           (room_config\<lparr> WebexConfig_room.NotificationChannelConfig :=
              (channel_config settings_room)
                \<lparr> NotificationChannelConfig.DisableResolveMessage := True \<rparr> \<rparr>)
           no_images transport_ok fixed_template) = False"
    using t1 by simp
  show ?thesis
    using fh fr a b c by simp
qed

text \<open>
  C3. In \<open>Notify\<close> of the two unified-alerting channels, when every alert of the batch is
  resolved the message begins with the check mark U+2705 and a space; when at least one
  alert is firing it begins with the warning sign U+26A0 U+FE0F and a space. The message
  is the value of the key \<open>markdown\<close> of the body, and \<open>Notify\<close> hands the command with
  this body to the transport.
\<close>

theorem C3_state_symbol_of_batch:
  "(list_all (\<lambda>a. Status a = AlertResolved) as \<longrightarrow>
      stateEmoji as = utf8 0x2705 @ '' ''
      \<and> HasPrefix (fst (message_hook th as)) (utf8 0x2705 @ '' '')
      \<and> HasPrefix (fst (message_room tr as)) (utf8 0x2705 @ '' ''))
   \<and> (list_ex (\<lambda>a. Status a = AlertFiring) as \<longrightarrow>
      stateEmoji as = utf8 0x26A0 @ utf8 0xFE0F @ '' ''
      \<and> HasPrefix (fst (message_hook th as)) (utf8 0x26A0 @ utf8 0xFE0F @ '' '')
      \<and> HasPrefix (fst (message_room tr as)) (utf8 0x26A0 @ utf8 0xFE0F @ '' ''))
   \<and> Body (request_hook th as)
        = ''{\"markdown\":'' @ encode_string (fst (message_hook th as)) @ ''}''
   \<and> Body (request_room tr as) =
        ''{\"markdown\":'' @ encode_string (fst (message_room tr as))
          @ '',\"roomId\":'' @ encode_string (WebexNotifier_room.RoomID tr) @ ''}''
   \<and> sent (snd (Notify_hook th as w)) = sent w @ [request_hook th as]
   \<and> sent (snd (Notify_room tr as w)) = sent w @ [request_room tr as]"
proof (intro conjI impI)
  assume r: "list_all (\<lambda>a. Status a = AlertResolved) as"
  then show e: "stateEmoji as = utf8 0x2705 @ '' ''"
    by (simp add: stateEmoji_def all_resolved_status)
  show "HasPrefix (fst (message_hook th as)) (utf8 0x2705 @ '' '')"
    using message_hook_prefix [of th as] e by simp
  show "HasPrefix (fst (message_room tr as)) (utf8 0x2705 @ '' '')"
    using message_room_prefix [of tr as] e by simp
next
  assume f: "list_ex (\<lambda>a. Status a = AlertFiring) as"
  then show e: "stateEmoji as = utf8 0x26A0 @ utf8 0xFE0F @ '' ''"
    by (simp add: stateEmoji_def some_firing_status)
  show "HasPrefix (fst (message_hook th as)) (utf8 0x26A0 @ utf8 0xFE0F @ '' '')"
    using message_hook_prefix [of th as] e by simp
  show "HasPrefix (fst (message_room tr as)) (utf8 0x26A0 @ utf8 0xFE0F @ '' '')"
    using message_room_prefix [of tr as] e by simp
next
  show "Body (request_hook th as)
          = ''{\"markdown\":'' @ encode_string (fst (message_hook th as)) @ ''}''"
    by (rule request_hook_body)
  show "Body (request_room tr as) =
        ''{\"markdown\":'' @ encode_string (fst (message_room tr as))
          @ '',\"roomId\":'' @ encode_string (WebexNotifier_room.RoomID tr) @ ''}''"
    by (rule request_room_body)
  show "sent (snd (Notify_hook th as w)) = sent w @ [request_hook th as]"
    by (rule Notify_hook_sent)
  show "sent (snd (Notify_room tr as w)) = sent w @ [request_room tr as]"
    by (rule Notify_room_sent)
qed

theorem C3_witness:
  "list_all (\<lambda>a. Status a = AlertResolved) [resolved_alert, resolved_alert]
   \<and> HasPrefix (fst (message_hook (hook_notifier transport_ok) [resolved_alert, resolved_alert]))
        [CHR 0xE2, CHR 0x9C, CHR 0x85, CHR '' '']
   \<and> sent (snd (Notify_hook (hook_notifier transport_ok) [resolved_alert, resolved_alert]
                       empty_world))
        = [request_hook (hook_notifier transport_ok) [resolved_alert, resolved_alert]]
   \<and> list_ex (\<lambda>a. Status a = AlertFiring) [resolved_alert, firing_alert]
   \<and> HasPrefix (fst (message_room (room_notifier transport_ok) [resolved_alert, firing_alert]))
        [CHR 0xE2, CHR 0x9A, CHR 0xA0, CHR 0xEF, CHR 0xB8, CHR 0x8F, CHR '' '']
   \<and> sent (snd (Notify_room (room_notifier transport_ok) [resolved_alert, firing_alert]
                       empty_world))
        = [request_room (room_notifier transport_ok) [resolved_alert, firing_alert]]"
proof -
  have a: "list_all (\<lambda>a. Status a = AlertResolved) [resolved_alert, resolved_alert]"
    and b: "list_ex (\<lambda>a. Status a = AlertFiring) [resolved_alert, firing_alert]"
    by (simp_all add: resolved_alert_def firing_alert_def)
  have w: "sent empty_world = []"
    by (simp add: empty_world_def)
  show ?thesis
    using a b w
      C3_state_symbol_of_batch [where as = "[resolved_alert, resolved_alert]"
        and th = "hook_notifier transport_ok" and tr = "room_notifier transport_ok"
        and w = empty_world]
      C3_state_symbol_of_batch [where as = "[resolved_alert, firing_alert]"
        and th = "hook_notifier transport_ok" and tr = "room_notifier transport_ok"
        and w = empty_world]
    by (simp add: utf8_2705 utf8_26A0 utf8_FE0F)
qed

text \<open>
  C4. A room-API configuration whose settings hold \<open>url\<close>, \<open>room_id\<close> and a secret that
  resolves to a non-empty string validates, and for every validated configuration the
  body built by \<open>Notify\<close> is the JSON object with exactly the keys \<open>roomId\<close>, holding the
  configured room ID, and \<open>markdown\<close>, holding the rendered message (written by
  \<open>json.Marshal\<close> with the keys in byte order), and the command carries the single header
  \<open>Authorization\<close> with \<open>Bearer\<close>, a space and the resolved secret. \<open>Notify\<close> of the
  legacy room-API notifier builds the same object from its room ID and its message, and
  the same header from its token.
\<close>

theorem C4_room_payload_and_bearer_header:
  "(\<not> missing (NotificationChannelConfig.Settings c) ''url''
    \<and> \<not> missing (NotificationChannelConfig.Settings c) ''room_id''
    \<and> resolved_secret c dec \<noteq> '''' \<longrightarrow> \<not> isl (NewWebexConfig_room c dec))
   \<and> (NewWebexConfig_room c dec = Inr cfg \<longrightarrow>
         Body (request_room (NewWebexNotifier_room cfg store sender t) as) =
           Marshal (JObject
             [(''roomId'',
               JString (MustString (Get (NotificationChannelConfig.Settings c) ''room_id'') '''')),
              (''markdown'',
               JString (fst (message_room (NewWebexNotifier_room cfg store sender t) as)))])
         \<and> Body (request_room (NewWebexNotifier_room cfg store sender t) as) =
             ''{\"markdown\":''
               @ encode_string (fst (message_room (NewWebexNotifier_room cfg store sender t) as))
               @ '',\"roomId\":''
               @ encode_string
                   (MustString (Get (NotificationChannelConfig.Settings c) ''room_id'') '''')
               @ ''}''
         \<and> HttpHeader (request_room (NewWebexNotifier_room cfg store sender t) as) =
             [(''Authorization'', ''Bearer '' @ resolved_secret c dec)]
         \<and> sent (snd (Notify_room (NewWebexNotifier_room cfg store sender t) as w)) =
             sent w @ [request_room (NewWebexNotifier_room cfg store sender t) as])
   \<and> Body (request_legacy_room wn ec) =
       Marshal (JObject
         [(''roomId'', JString (WebexNotifier_legacy_room.RoomId wn)),
          (''markdown'', JString (message_legacy ec))])
   \<and> Body (request_legacy_room wn ec) =
       ''{\"markdown\":'' @ encode_string (message_legacy ec)
         @ '',\"roomId\":'' @ encode_string (WebexNotifier_legacy_room.RoomId wn) @ ''}''
   \<and> HttpHeader (request_legacy_room wn ec) =
       [(''Authorization'', ''Bearer '' @ WebexNotifier_legacy_room.ApiToken wn)]
   \<and> sent (snd (Notify_legacy_room wn ec w)) = sent w @ [request_legacy_room wn ec]"
proof (intro conjI impI)
  assume "\<not> missing (NotificationChannelConfig.Settings c) ''url''
    \<and> \<not> missing (NotificationChannelConfig.Settings c) ''room_id''
    \<and> resolved_secret c dec \<noteq> ''''"
  then show "\<not> isl (NewWebexConfig_room c dec)"
    using room_config_ok [of c dec] by simp
next
  assume ok: "NewWebexConfig_room c dec = Inr cfg"
  let ?tn = "NewWebexNotifier_room cfg store sender t"
  have room: "WebexNotifier_room.RoomID ?tn
                = MustString (Get (NotificationChannelConfig.Settings c) ''room_id'') ''''"
    and secret: "WebexNotifier_room.APISecret ?tn = resolved_secret c dec"
    using room_config_fields [OF ok] by (simp_all add: NewWebexNotifier_room_def)
  show "Body (request_room ?tn as) =
           Marshal (JObject
             [(''roomId'',
               JString (MustString (Get (NotificationChannelConfig.Settings c) ''room_id'') '''')),
              (''markdown'', JString (fst (message_room ?tn as)))])"
    using room by (simp add: request_room_def Let_def del: Marshal.simps)
  show "Body (request_room ?tn as) =
             ''{\"markdown\":'' @ encode_string (fst (message_room ?tn as))
               @ '',\"roomId\":''
               @ encode_string
                   (MustString (Get (NotificationChannelConfig.Settings c) ''room_id'') '''')
               @ ''}''"
    using room request_room_body [of ?tn as] by simp
  show "HttpHeader (request_room ?tn as)
          = [(''Authorization'', ''Bearer '' @ resolved_secret c dec)]"
    using secret by (simp add: request_room_def Let_def del: Marshal.simps)
  show "sent (snd (Notify_room ?tn as w)) = sent w @ [request_room ?tn as]"
    by (rule Notify_room_sent)
next
  show "Body (request_legacy_room wn ec) =
       Marshal (JObject
         [(''roomId'', JString (WebexNotifier_legacy_room.RoomId wn)),
          (''markdown'', JString (message_legacy ec))])"
    by (simp add: request_legacy_room_def Let_def del: Marshal.simps)
  show "Body (request_legacy_room wn ec) =
       ''{\"markdown\":'' @ encode_string (message_legacy ec)
         @ '',\"roomId\":'' @ encode_string (WebexNotifier_legacy_room.RoomId wn) @ ''}''"
    by (rule request_legacy_room_body)
  show "HttpHeader (request_legacy_room wn ec) =
       [(''Authorization'', ''Bearer '' @ WebexNotifier_legacy_room.ApiToken wn)]"
    by (simp add: request_legacy_room_def Let_def del: Marshal.simps)
  show "sent (snd (Notify_legacy_room wn ec w)) = sent w @ [request_legacy_room wn ec]"
    by (rule Notify_legacy_room_sent)
qed

theorem C4_witness:
  "\<not> missing settings_room ''url'' \<and> \<not> missing settings_room ''room_id''
   \<and> resolved_secret (channel_config settings_room) fallback_resolver = ''tok''
   \<and> NewWebexConfig_room (channel_config settings_room) fallback_resolver = Inr room_config
   \<and> Body (request_room (room_notifier transport_ok) [firing_alert]) =
        ''{\"markdown\":\"'' @ [CHR 0xE2, CHR 0x9A, CHR 0xA0, CHR 0xEF, CHR 0xB8, CHR 0x8F]
          @ '' Firing'' @ newline_escape @ newline_escape @ ''*Message:*'' @ newline_escape
          @ ''Firing'' @ newline_escape @ ''*URL:* https:/example.test/alerting/list''
          @ newline_escape @ ''\",\"roomId\":\"R1\"}''
   \<and> HttpHeader (request_room (room_notifier transport_ok) [firing_alert]) =
        [(''Authorization'', ''Bearer tok'')]
   \<and> HttpHeader (request_legacy_room legacy_room_notifier
          (eval_context AlertStateAlerting ''[Alerting] cpu''))
        = [(''Authorization'', ''Bearer tok'')]"
proof -
  let ?c = "channel_config settings_room"
  let ?ec = "eval_context AlertStateAlerting ''[Alerting] cpu''"
  have s: "NotificationChannelConfig.Settings ?c = settings_room"
    by (simp add: channel_config_def)
  have h: "\<not> missing settings_room ''url''" "\<not> missing settings_room ''room_id''"
    "resolved_secret ?c fallback_resolver = ''tok''"
    "MustString (Get settings_room ''room_id'') '''' = ''R1''"
    by (simp_all add: missing_def channel_config_def settings_room_def resolved_secret_def
          fallback_resolver_def)
  have cfg: "NewWebexConfig_room ?c fallback_resolver = Inr room_config"
    by (simp add: NewWebexConfig_room_def channel_config_def settings_room_def
          fallback_resolver_def room_config_def Let_def)
  note t = C4_room_payload_and_bearer_header
    [where c = ?c and dec = fallback_resolver and cfg = room_config and store = no_images
       and sender = transport_ok and t = fixed_template and as = "[firing_alert]"
       and wn = legacy_room_notifier and ec = ?ec, unfolded s]
  note tr = t [THEN conjunct2, THEN conjunct1, rule_format, OF cfg]
  note tl = t [THEN conjunct2, THEN conjunct2]
  have b: "Body (request_room (room_notifier transport_ok) [firing_alert]) =
          ''{\"markdown\":''
            @ encode_string (fst (message_room (room_notifier transport_ok) [firing_alert]))
            @ '',\"roomId\":'' @ encode_string ''R1'' @ ''}''"
    using tr [THEN conjunct2, THEN conjunct1] h by (simp add: room_notifier_def)
  have a: "HttpHeader (request_room (room_notifier transport_ok) [firing_alert]) =
            [(''Authorization'', ''Bearer tok'')]"
    using tr [THEN conjunct2, THEN conjunct2, THEN conjunct1] h by (simp add: room_notifier_def)
  have la: "HttpHeader (request_legacy_room legacy_room_notifier ?ec) =
            [(''Authorization'', ''Bearer tok'')]"
    using tl [THEN conjunct2, THEN conjunct2, THEN conjunct1]
    by (simp add: legacy_room_notifier_def)
  have r1: "encode_string ''R1'' = ''\"R1\"''"
    by (simp add: encode_string_def escape_byte_def)
  have "Body (request_room (room_notifier transport_ok) [firing_alert]) =
        ''{\"markdown\":\"'' @ [CHR 0xE2, CHR 0x9A, CHR 0xA0, CHR 0xEF, CHR 0xB8, CHR 0x8F]
          @ '' Firing'' @ newline_escape @ newline_escape @ ''*Message:*'' @ newline_escape
          @ ''Firing'' @ newline_escape @ ''*URL:* https:/example.test/alerting/list''
          @ newline_escape @ ''\",\"roomId\":\"R1\"}''"
    unfolding b encode_fixed_message r1 by simp
  then show ?thesis
    using h cfg a la by simp
qed

text \<open>
  C5. In every delivery attempt of the room-API channel the request body is computed
  from the room ID and the rendered message alone, never from the secret, raw or
  resolved: replacing the secret of the notifier leaves the body unchanged, and two runs
  whose configurations differ only in the secret hand identical bodies to the transport.
  The only header is \<open>Authorization\<close>, and its value is exactly \<open>Bearer\<close>, a space and the
  resolved secret, which is what the decrypt function returned and not the plain setting
  it was given as fallback. \<open>Notify\<close> hands the command with this body and this header to
  the transport.
\<close>

theorem C5_body_does_not_depend_on_secret:
  "Body (request_room (tr\<lparr> WebexNotifier_room.APISecret := s \<rparr>) as) = Body (request_room tr as)
   \<and> HttpHeader (request_room tr as)
        = [(''Authorization'', ''Bearer '' @ WebexNotifier_room.APISecret tr)]
   \<and> sent (snd (Notify_room tr as w)) = sent w @ [request_room tr as]
   \<and> (NewWebexConfig_room ca deca = Inr cfga \<and> NewWebexConfig_room cb decb = Inr cfgb
        \<and> MustString (Get (NotificationChannelConfig.Settings ca) ''room_id'') ''''
            = MustString (Get (NotificationChannelConfig.Settings cb) ''room_id'') '''' \<longrightarrow>
        Body (request_room (NewWebexNotifier_room cfga store sender t) as)
          = Body (request_room (NewWebexNotifier_room cfgb store sender t) as)
        \<and> HttpHeader (request_room (NewWebexNotifier_room cfga store sender t) as)
            = [(''Authorization'', ''Bearer '' @ resolved_secret ca deca)]
        \<and> HttpHeader (request_room (NewWebexNotifier_room cfgb store sender t) as)
            = [(''Authorization'', ''Bearer '' @ resolved_secret cb decb)])"
proof (intro conjI impI)
  have "message_room (tr\<lparr> WebexNotifier_room.APISecret := s \<rparr>) as = message_room tr as"
    by (simp add: message_room_def)
  then show "Body (request_room (tr\<lparr> WebexNotifier_room.APISecret := s \<rparr>) as)
               = Body (request_room tr as)"
    by (simp add: request_room_body)
  show "HttpHeader (request_room tr as)
          = [(''Authorization'', ''Bearer '' @ WebexNotifier_room.APISecret tr)]"
    by (simp add: request_room_def Let_def del: Marshal.simps)
  show "sent (snd (Notify_room tr as w)) = sent w @ [request_room tr as]"
    by (rule Notify_room_sent)
next
  assume a: "NewWebexConfig_room ca deca = Inr cfga \<and> NewWebexConfig_room cb decb = Inr cfgb
        \<and> MustString (Get (NotificationChannelConfig.Settings ca) ''room_id'') ''''
            = MustString (Get (NotificationChannelConfig.Settings cb) ''room_id'') ''''"
  let ?t1 = "NewWebexNotifier_room cfga store sender t"
  let ?t2 = "NewWebexNotifier_room cfgb store sender t"
  have f1: "WebexConfig_room.RoomID cfga
              = MustString (Get (NotificationChannelConfig.Settings ca) ''room_id'') ''''"
    "WebexConfig_room.APISecret cfga = resolved_secret ca deca"
    using a room_config_fields [of ca deca cfga] by simp_all
  have f2: "WebexConfig_room.RoomID cfgb
              = MustString (Get (NotificationChannelConfig.Settings cb) ''room_id'') ''''"
    "WebexConfig_room.APISecret cfgb = resolved_secret cb decb"
    using a room_config_fields [of cb decb cfgb] by simp_all
  have m: "message_room ?t1 as = message_room ?t2 as"
    by (simp add: message_room_def NewWebexNotifier_room_def)
  have r: "WebexNotifier_room.RoomID ?t1 = WebexNotifier_room.RoomID ?t2"
    using a f1 f2 by (simp add: NewWebexNotifier_room_def)
  show "Body (request_room ?t1 as) = Body (request_room ?t2 as)"
    using m r by (simp add: request_room_body)
  show "HttpHeader (request_room ?t1 as)
          = [(''Authorization'', ''Bearer '' @ resolved_secret ca deca)]"
    using f1 by (simp add: request_room_def Let_def NewWebexNotifier_room_def del: Marshal.simps)
  show "HttpHeader (request_room ?t2 as)
          = [(''Authorization'', ''Bearer '' @ resolved_secret cb decb)]"
    using f2 by (simp add: request_room_def Let_def NewWebexNotifier_room_def del: Marshal.simps)
qed

theorem C5_witness:
  "NewWebexConfig_room (channel_config settings_room) fallback_resolver = Inr room_config
   \<and> NewWebexConfig_room channel_config_secure fallback_resolver = Inr room_config_secure
   \<and> MustString (Get (NotificationChannelConfig.Settings (channel_config settings_room))
          ''room_id'') ''''
        = MustString (Get (NotificationChannelConfig.Settings channel_config_secure)
          ''room_id'') ''''
   \<and> resolved_secret (channel_config settings_room) fallback_resolver = ''tok''
   \<and> resolved_secret channel_config_secure fallback_resolver = ''s3cr3t''
   \<and> MustString (Get (NotificationChannelConfig.Settings channel_config_secure)
          ''api_secret'') '''' = ''tok''
   \<and> Body (request_room
             (NewWebexNotifier_room room_config no_images transport_ok fixed_template)
             [firing_alert])
        = Body (request_room
             (NewWebexNotifier_room room_config_secure no_images transport_ok fixed_template)
             [firing_alert])
   \<and> HttpHeader (request_room
             (NewWebexNotifier_room room_config no_images transport_ok fixed_template)
             [firing_alert])
        = [(''Authorization'', ''Bearer tok'')]
   \<and> HttpHeader (request_room
             (NewWebexNotifier_room room_config_secure no_images transport_ok fixed_template)
             [firing_alert])
        = [(''Authorization'', ''Bearer s3cr3t'')]
   \<and> sent (snd (Notify_room
             (NewWebexNotifier_room room_config_secure no_images transport_ok fixed_template)
             [firing_alert] empty_world))
        = [request_room
             (NewWebexNotifier_room room_config_secure no_images transport_ok fixed_template)
             [firing_alert]]"
proof -
  let ?ca = "channel_config settings_room"
  let ?tb = "NewWebexNotifier_room room_config_secure no_images transport_ok fixed_template"
  have cfga: "NewWebexConfig_room ?ca fallback_resolver = Inr room_config"
    by (simp add: NewWebexConfig_room_def channel_config_def settings_room_def
          fallback_resolver_def room_config_def Let_def)
  have cfgb: "NewWebexConfig_room channel_config_secure fallback_resolver
                = Inr room_config_secure"
    by (simp add: NewWebexConfig_room_def channel_config_secure_def channel_config_def
          settings_room_def fallback_resolver_def room_config_secure_def Let_def)
  have r: "MustString (Get (NotificationChannelConfig.Settings ?ca) ''room_id'') ''''
             = MustString (Get (NotificationChannelConfig.Settings channel_config_secure)
                 ''room_id'') ''''"
    by (simp add: channel_config_secure_def channel_config_def)
  have k: "resolved_secret ?ca fallback_resolver = ''tok''"
    "resolved_secret channel_config_secure fallback_resolver = ''s3cr3t''"
    "MustString (Get (NotificationChannelConfig.Settings channel_config_secure)
       ''api_secret'') '''' = ''tok''"
    by (simp_all add: resolved_secret_def channel_config_secure_def channel_config_def
          settings_room_def fallback_resolver_def)
  note t = C5_body_does_not_depend_on_secret
    [where ca = ?ca and cb = channel_config_secure and deca = fallback_resolver
       and decb = fallback_resolver and cfga = room_config and cfgb = room_config_secure
       and store = no_images and sender = transport_ok and t = fixed_template
       and as = "[firing_alert]" and tr = ?tb and w = empty_world]
  note u = t [THEN conjunct2, THEN conjunct2, THEN conjunct2, rule_format,
              OF conjI [OF cfga conjI [OF cfgb r]], unfolded k]
  have n: "sent (snd (Notify_room ?tb [firing_alert] empty_world))
             = [request_room ?tb [firing_alert]]"
    using t [THEN conjunct2, THEN conjunct2, THEN conjunct1] by (simp add: empty_world_def)
  show ?thesis
    using u cfga cfgb r k n by simp
qed

text \<open>
  C6. Every call to \<open>Notify\<close> of the two unified-alerting channels hands exactly one
  command to the injected transport, an HTTP POST; when the transport answers with an
  error, \<open>Notify\<close> returns false with that error, without a second send, and when it
  answers with none, \<open>Notify\<close> returns true and no error.
\<close>

theorem C6_exactly_one_send:
  "sent (snd (Notify_hook th as w)) = sent w @ [request_hook th as]
   \<and> HttpMethod (request_hook th as) = ''POST''
   \<and> fst (Notify_hook th as w) =
        (case WebexNotifier_hook.ns th (sent w) (request_hook th as) of
           None \<Rightarrow> (True, None) | Some err \<Rightarrow> (False, Some err))
   \<and> sent (snd (Notify_room tr as w)) = sent w @ [request_room tr as]
   \<and> HttpMethod (request_room tr as) = ''POST''
   \<and> fst (Notify_room tr as w) =
        (case WebexNotifier_room.ns tr (sent w) (request_room tr as) of
           None \<Rightarrow> (True, None) | Some err \<Rightarrow> (False, Some err))"
  by (simp add: Notify_hook_sent Notify_room_sent Notify_hook_result Notify_room_result)
     (simp add: request_hook_def request_room_def Let_def del: Marshal.simps Set.simps)

theorem C6_witness:
  "fst (Notify_hook (hook_notifier transport_down) [firing_alert] empty_world)
     = (False, Some (errors_New ''connection refused''))
   \<and> length (sent (snd (Notify_hook (hook_notifier transport_down) [firing_alert] empty_world))) = 1
   \<and> fst (Notify_room (room_notifier transport_ok) [firing_alert] empty_world) = (True, None)
   \<and> length (sent (snd (Notify_room (room_notifier transport_ok) [firing_alert] empty_world))) = 1"
  using C6_exactly_one_send [where th = "hook_notifier transport_down"
      and tr = "room_notifier transport_ok" and as = "[firing_alert]" and w = empty_world]
  by (simp add: hook_notifier_def room_notifier_def NewWebexNotifier_hook_def
        NewWebexNotifier_room_def transport_down_def transport_ok_def empty_world_def)

text \<open>
  C7. The claim: in the generic-webhook shape the body holds the key \<open>markdown\<close> if and
  only if the rendered message is not empty, and carries no authentication header. The
  legacy webhook notifier guards the key by the configured \<open>Content\<close> instead of the
  message. Built from the settings \<open>{"webhook_url": "https://example.test/hook"}\<close>, with
  no \<open>content\<close>, it renders a message that is not empty for a rule in state alerting,
  and sends the body \<open>{}\<close>.
\<close>

theorem C7_legacy_hook_sends_empty_object:
  "NewWebexNotifier_legacy_hook (alert_notification settings_hook) fallback_resolver transport_ok
     = Inr legacy_hook_notifier
   \<and> message_legacy (eval_context AlertStateAlerting ''[Alerting] cpu'') =
       [CHR 0xE2, CHR 0x9A, CHR 0xA0, CHR 0xEF, CHR 0xB8, CHR 0x8F]
         @ '' [Alerting] cpu\<newline>\<newline>*State:* cpu\<newline>*Message:* load is high\<newline>''
   \<and> message_legacy (eval_context AlertStateAlerting ''[Alerting] cpu'') \<noteq> ''''
   \<and> Body (request_legacy_hook legacy_hook_notifier
        (eval_context AlertStateAlerting ''[Alerting] cpu'')) = ''{}''
   \<and> HttpHeader (request_legacy_hook legacy_hook_notifier
        (eval_context AlertStateAlerting ''[Alerting] cpu'')) = []
   \<and> sent (snd (Notify_legacy_hook legacy_hook_notifier
        (eval_context AlertStateAlerting ''[Alerting] cpu'') empty_world))
       = [request_legacy_hook legacy_hook_notifier
            (eval_context AlertStateAlerting ''[Alerting] cpu'')]
   \<and> fst (Notify_legacy_hook legacy_hook_notifier
        (eval_context AlertStateAlerting ''[Alerting] cpu'') empty_world) = None"
proof -
  let ?ec = "eval_context AlertStateAlerting ''[Alerting] cpu''"
  have n: "NewWebexNotifier_legacy_hook (alert_notification settings_hook) fallback_resolver
             transport_ok = Inr legacy_hook_notifier"
    by (simp add: NewWebexNotifier_legacy_hook_def alert_notification_def settings_hook_def
          legacy_hook_notifier_def Let_def)
  have m: "message_legacy ?ec =
       [CHR 0xE2, CHR 0x9A, CHR 0xA0, CHR 0xEF, CHR 0xB8, CHR 0x8F]
         @ '' [Alerting] cpu\<newline>\<newline>*State:* cpu\<newline>*Message:* load is high\<newline>''"
    by (simp add: message_legacy_def eval_context_def utf8_26A0 utf8_FE0F)
  have b: "Body (request_legacy_hook legacy_hook_notifier ?ec) = ''{}''"
    by (simp add: request_legacy_hook_def legacy_hook_notifier_def Let_def Marshal_empty
          del: Marshal.simps)
  have h: "HttpHeader (request_legacy_hook legacy_hook_notifier ?ec) = []"
    by (simp add: request_legacy_hook_def Let_def del: Marshal.simps Set.simps)
  have s: "sent (snd (Notify_legacy_hook legacy_hook_notifier ?ec empty_world))
             = [request_legacy_hook legacy_hook_notifier ?ec]"
    by (simp add: Notify_legacy_hook_sent empty_world_def)
  have r: "fst (Notify_legacy_hook legacy_hook_notifier ?ec empty_world) = None"
    by (simp add: Notify_legacy_hook_result legacy_hook_notifier_def NewNotifierBase_def
          transport_ok_def)
  show ?thesis
    using n m b h s r by simp
qed

text \<open>
  C8, as amended. For every configuration of the unified-alerting webhook channel whose
  \<open>webhook_url\<close> is present and whose optional \<open>message\<close> is absent, validation succeeds
  and the content of the configuration is the default template
  \<open>{{ template "default.message" . }}\<close>, not the empty string.
\<close>

theorem C8_default_message_template:
  "(\<not> missing (NotificationChannelConfig.Settings c) ''webhook_url''
    \<and> absent (NotificationChannelConfig.Settings c) ''message'' \<longrightarrow>
      NewWebexConfig_hook c dec =
        Inr \<lparr> WebexConfig_hook.NotificationChannelConfig = c,
              WebexConfig_hook.WebhookURL =
                MustString (Get (NotificationChannelConfig.Settings c) ''webhook_url'') '''',
              WebexConfig_hook.Content = ''{{ template \"default.message\" . }}'' \<rparr>)
   \<and> (NewWebexConfig_hook c dec = Inr cfg
    \<and> absent (NotificationChannelConfig.Settings c) ''message'' \<longrightarrow>
      WebexConfig_hook.Content cfg = ''{{ template \"default.message\" . }}''
      \<and> WebexConfig_hook.Content cfg \<noteq> ''''
      \<and> WebexNotifier_hook.Content (NewWebexNotifier_hook cfg store sender t)
          = ''{{ template \"default.message\" . }}'')"
proof (intro conjI impI)
  assume "\<not> missing (NotificationChannelConfig.Settings c) ''webhook_url''
    \<and> absent (NotificationChannelConfig.Settings c) ''message''"
  then show "NewWebexConfig_hook c dec =
        Inr \<lparr> WebexConfig_hook.NotificationChannelConfig = c,
              WebexConfig_hook.WebhookURL =
                MustString (Get (NotificationChannelConfig.Settings c) ''webhook_url'') '''',
              WebexConfig_hook.Content = ''{{ template \"default.message\" . }}'' \<rparr>"
    using absent_Get [of "NotificationChannelConfig.Settings c" "''message''"]
    by (simp add: NewWebexConfig_hook_def missing_def Let_def)
next
  assume a: "NewWebexConfig_hook c dec = Inr cfg
    \<and> absent (NotificationChannelConfig.Settings c) ''message''"
  then have "Get (NotificationChannelConfig.Settings c) ''message'' = JNull"
    using absent_Get by blast
  then show d: "WebexConfig_hook.Content cfg = ''{{ template \"default.message\" . }}''"
    using a by (auto simp: NewWebexConfig_hook_def Let_def split: if_splits)
  show "WebexConfig_hook.Content cfg \<noteq> ''''"
    unfolding d by simp
  show "WebexNotifier_hook.Content (NewWebexNotifier_hook cfg store sender t)
          = ''{{ template \"default.message\" . }}''"
    using d by (simp add: NewWebexNotifier_hook_def)
qed

theorem C8_witness:
  "\<not> missing settings_hook ''webhook_url'' \<and> absent settings_hook ''message''
   \<and> NewWebexConfig_hook (channel_config settings_hook) fallback_resolver = Inr hook_config
   \<and> WebexConfig_hook.Content hook_config = ''{{ template \"default.message\" . }}''
   \<and> WebexNotifier_hook.Content (hook_notifier transport_ok)
        = ''{{ template \"default.message\" . }}''"
proof -
  have s: "NotificationChannelConfig.Settings (channel_config settings_hook) = settings_hook"
    by (simp add: channel_config_def)
  have h: "\<not> missing settings_hook ''webhook_url''" "absent settings_hook ''message''"
    "MustString (Get settings_hook ''webhook_url'') '''' = ''https://example.test/hook''"
    by (simp_all add: missing_def absent_def settings_hook_def)
  note t = C8_default_message_template
    [where c = "channel_config settings_hook" and dec = fallback_resolver
       and cfg = hook_config and store = no_images and sender = transport_ok
       and t = fixed_template, unfolded s]
  have c: "NewWebexConfig_hook (channel_config settings_hook) fallback_resolver = Inr hook_config"
    using t h by (simp add: hook_config_def)
  have d: "WebexConfig_hook.Content hook_config = ''{{ template \"default.message\" . }}''"
    "WebexNotifier_hook.Content (hook_notifier transport_ok)
        = ''{{ template \"default.message\" . }}''"
    using t [THEN conjunct2, rule_format, OF conjI [OF c h(2)]]
    by (simp_all add: hook_notifier_def)
  show ?thesis
    using h c d by simp
qed

text \<open>
  C8 as stated fails on the legacy webhook notifier: built from the settings
  \<open>{"webhook_url": "https://example.test/hook"}\<close>, in which \<open>content\<close> is absent, its
  content is the empty string and not the default template.
\<close>

theorem C8_counterexample:
  "absent (AlertNotification.Settings (alert_notification settings_hook)) ''content''
   \<and> NewWebexNotifier_legacy_hook (alert_notification settings_hook) fallback_resolver
        transport_ok = Inr legacy_hook_notifier
   \<and> WebexNotifier_legacy_hook.Content legacy_hook_notifier = ''''
   \<and> WebexNotifier_legacy_hook.Content legacy_hook_notifier
        \<noteq> ''{{ template \"default.message\" . }}''"
  by (simp add: NewWebexNotifier_legacy_hook_def alert_notification_def settings_hook_def
        legacy_hook_notifier_def absent_def Let_def)

text \<open>
  C9. The claim: every message holds a deep link obtained by joining the external base
  URL with \<open>/alerting/list\<close>. \<open>Notify\<close> of the two unified-alerting channels builds the
  link with \<open>path.Join\<close> (lines 100 and 251), which cleans its result as a file path and
  so collapses the two slashes after the scheme. With the external URL
  \<open>https://example.test\<close> the message handed to the transport holds
  \<open>https:/example.test/alerting/list\<close>, and the base URL occurs nowhere in it.
\<close>

theorem C9_deep_link_loses_a_slash:
  "ExternalURL (WebexNotifier_hook.tmpl (hook_notifier transport_ok)) = ''https://example.test''
   \<and> ExternalURL (WebexNotifier_room.tmpl (room_notifier transport_ok)) = ''https://example.test''
   \<and> Join [''https://example.test'', ''/alerting/list''] = ''https:/example.test/alerting/list''
   \<and> fst (message_hook (hook_notifier transport_ok) [resolved_alert]) =
        [CHR 0xE2, CHR 0x9C, CHR 0x85]
          @ '' Firing\<newline>\<newline>*Message:*\<newline>Firing\<newline>*URL:* https:/example.test/alerting/list\<newline>''
   \<and> \<not> Contains (fst (message_hook (hook_notifier transport_ok) [resolved_alert]))
          ''https://example.test''
   \<and> sent (snd (Notify_hook (hook_notifier transport_ok) [resolved_alert] empty_world))
        = [request_hook (hook_notifier transport_ok) [resolved_alert]]
   \<and> Body (request_hook (hook_notifier transport_ok) [resolved_alert]) =
        ''{\"markdown\":\"'' @ [CHR 0xE2, CHR 0x9C, CHR 0x85]
          @ '' Firing'' @ newline_escape @ newline_escape @ ''*Message:*'' @ newline_escape
          @ ''Firing'' @ newline_escape @ ''*URL:* https:/example.test/alerting/list''
          @ newline_escape @ ''\"}''
   \<and> fst (message_room (room_notifier transport_ok) [firing_alert]) =
        [CHR 0xE2, CHR 0x9A, CHR 0xA0, CHR 0xEF, CHR 0xB8, CHR 0x8F]
          @ '' Firing\<newline>\<newline>*Message:*\<newline>Firing\<newline>*URL:* https:/example.test/alerting/list\<newline>''
   \<and> \<not> Contains (fst (message_room (room_notifier transport_ok) [firing_alert]))
          ''https://example.test''
   \<and> sent (snd (Notify_room (room_notifier transport_ok) [firing_alert] empty_world))
        = [request_room (room_notifier transport_ok) [firing_alert]]
   \<and> Body (request_room (room_notifier transport_ok) [firing_alert]) =
        ''{\"markdown\":\"'' @ [CHR 0xE2, CHR 0x9A, CHR 0xA0, CHR 0xEF, CHR 0xB8, CHR 0x8F]
          @ '' Firing'' @ newline_escape @ newline_escape @ ''*Message:*'' @ newline_escape
          @ ''Firing'' @ newline_escape @ ''*URL:* https:/example.test/alerting/list''
          @ newline_escape @ ''\",\"roomId\":\"R1\"}''"
proof -
  let ?th = "hook_notifier transport_ok"
  let ?tr = "room_notifier transport_ok"
  have u: "ExternalURL (WebexNotifier_hook.tmpl ?th) = ''https://example.test''"
    "ExternalURL (WebexNotifier_room.tmpl ?tr) = ''https://example.test''"
    by (simp_all add: hook_notifier_def room_notifier_def NewWebexNotifier_hook_def
          NewWebexNotifier_room_def fixed_template_def)
  have j: "Join [''https://example.test'', ''/alerting/list'']
             = ''https:/example.test/alerting/list''"
    by (simp add: Join_def Clean_def at_separator_def at_dotdot_def)
  have mh: "fst (message_hook ?th [resolved_alert]) =
        [CHR 0xE2, CHR 0x9C, CHR 0x85]
          @ '' Firing\<newline>\<newline>*Message:*\<newline>Firing\<newline>*URL:* https:/example.test/alerting/list\<newline>''"
    by (rule fixed_message_hook)
  have mr: "fst (message_room ?tr [firing_alert]) =
        [CHR 0xE2, CHR 0x9A, CHR 0xA0, CHR 0xEF, CHR 0xB8, CHR 0x8F]
          @ '' Firing\<newline>\<newline>*Message:*\<newline>Firing\<newline>*URL:* https:/example.test/alerting/list\<newline>''"
    by (rule fixed_message_room)
  have ch: "\<not> Contains (fst (message_hook ?th [resolved_alert])) ''https://example.test''"
    unfolding mh by simp
  have cr: "\<not> Contains (fst (message_room ?tr [firing_alert])) ''https://example.test''"
    unfolding mr by simp
  have sh: "sent (snd (Notify_hook ?th [resolved_alert] empty_world))
              = [request_hook ?th [resolved_alert]]"
    by (simp add: Notify_hook_sent empty_world_def)
  have sr: "sent (snd (Notify_room ?tr [firing_alert] empty_world))
              = [request_room ?tr [firing_alert]]"
    by (simp add: Notify_room_sent empty_world_def)
  have eh: "encode_string (fst (message_hook ?th [resolved_alert])) =
        ''\"'' @ [CHR 0xE2, CHR 0x9C, CHR 0x85] @ '' Firing''
          @ newline_escape @ newline_escape @ ''*Message:*'' @ newline_escape @ ''Firing''
          @ newline_escape @ ''*URL:* https:/example.test/alerting/list'' @ newline_escape
          @ ''\"''"
    unfolding mh
    by (simp add: encode_string_def escape_byte_def DecodeRune_size_def continuation_def
          newline_escape_def)
  have bh: "Body (request_hook ?th [resolved_alert]) =
        ''{\"markdown\":\"'' @ [CHR 0xE2, CHR 0x9C, CHR 0x85]
          @ '' Firing'' @ newline_escape @ newline_escape @ ''*Message:*'' @ newline_escape
          @ ''Firing'' @ newline_escape @ ''*URL:* https:/example.test/alerting/list''
          @ newline_escape @ ''\"}''"
    unfolding request_hook_body eh by simp
  have rid: "encode_string (WebexNotifier_room.RoomID ?tr) = ''\"R1\"''"
    by (simp add: room_notifier_def NewWebexNotifier_room_def room_config_def
          encode_string_def escape_byte_def)
  have br: "Body (request_room ?tr [firing_alert]) =
        ''{\"markdown\":\"'' @ [CHR 0xE2, CHR 0x9A, CHR 0xA0, CHR 0xEF, CHR 0xB8, CHR 0x8F]
          @ '' Firing'' @ newline_escape @ newline_escape @ ''*Message:*'' @ newline_escape
          @ ''Firing'' @ newline_escape @ ''*URL:* https:/example.test/alerting/list''
          @ newline_escape @ ''\",\"roomId\":\"R1\"}''"
    unfolding request_room_body encode_fixed_message rid by simp
  show ?thesis
    using u j mh ch sh bh mr cr sr br by simp
qed

text \<open>
  C10. The claim: in the legacy notifiers, for every state other than OK, no-data and
  alerting, the state symbol is empty and the message is still built and delivered
  without error. The symbol is empty for paused, pending and unknown, and the message is
  built from the title, the name and the message of the rule; the room-API notifier
  hands it to the transport. The webhook notifier guards the key \<open>markdown\<close> by the
  configured \<open>Content\<close>: built from the settings
  \<open>{"webhook_url": "https://example.test/hook"}\<close>, for a rule in state paused or pending
  it sends the body \<open>{}\<close>, and the message is not delivered.
\<close>

theorem C10_legacy_hook_drops_message_of_paused_rule:
  "NewWebexNotifier_legacy_hook (alert_notification settings_hook) fallback_resolver transport_ok
     = Inr legacy_hook_notifier
   \<and> stateEmoji_legacy AlertStatePaused = ''''
   \<and> stateEmoji_legacy AlertStatePending = ''''
   \<and> stateEmoji_legacy AlertStateUnknown = ''''
   \<and> message_legacy (eval_context AlertStatePaused ''[Paused] cpu'') =
        ''[Paused] cpu\<newline>\<newline>*State:* cpu\<newline>*Message:* load is high\<newline>''
   \<and> sent (snd (Notify_legacy_hook legacy_hook_notifier
        (eval_context AlertStatePaused ''[Paused] cpu'') empty_world))
       = [request_legacy_hook legacy_hook_notifier (eval_context AlertStatePaused ''[Paused] cpu'')]
   \<and> Body (request_legacy_hook legacy_hook_notifier
        (eval_context AlertStatePaused ''[Paused] cpu'')) = ''{}''
   \<and> Body (request_legacy_hook legacy_hook_notifier
        (eval_context AlertStatePending ''[Pending] cpu'')) = ''{}''
   \<and> fst (Notify_legacy_hook legacy_hook_notifier
        (eval_context AlertStatePaused ''[Paused] cpu'') empty_world) = None
   \<and> sent (snd (Notify_legacy_room legacy_room_notifier
        (eval_context AlertStatePaused ''[Paused] cpu'') empty_world))
       = [request_legacy_room legacy_room_notifier (eval_context AlertStatePaused ''[Paused] cpu'')]
   \<and> Body (request_legacy_room legacy_room_notifier
        (eval_context AlertStatePaused ''[Paused] cpu'')) =
       ''{\"markdown\":\"[Paused] cpu'' @ newline_escape @ newline_escape @ ''*State:* cpu''
         @ newline_escape @ ''*Message:* load is high'' @ newline_escape
         @ ''\",\"roomId\":\"R1\"}''
   \<and> fst (Notify_legacy_room legacy_room_notifier
        (eval_context AlertStatePaused ''[Paused] cpu'') empty_world) = None"
proof -
  let ?ec = "eval_context AlertStatePaused ''[Paused] cpu''"
  let ?ep = "eval_context AlertStatePending ''[Pending] cpu''"
  have c: "NewWebexNotifier_legacy_hook (alert_notification settings_hook) fallback_resolver
             transport_ok = Inr legacy_hook_notifier"
    by (simp add: NewWebexNotifier_legacy_hook_def alert_notification_def settings_hook_def
          legacy_hook_notifier_def Let_def)
  have e: "stateEmoji_legacy AlertStatePaused = ''''" "stateEmoji_legacy AlertStatePending = ''''"
    "stateEmoji_legacy AlertStateUnknown = ''''"
    by (simp_all add: stateEmoji_legacy_default)
  have m: "message_legacy ?ec =
        ''[Paused] cpu\<newline>\<newline>*State:* cpu\<newline>*Message:* load is high\<newline>''"
    by (simp add: message_legacy_def eval_context_def)
  have sh: "sent (snd (Notify_legacy_hook legacy_hook_notifier ?ec empty_world))
              = [request_legacy_hook legacy_hook_notifier ?ec]"
    by (simp add: Notify_legacy_hook_sent empty_world_def)
  have bh: "Body (request_legacy_hook legacy_hook_notifier ?ec) = ''{}''"
    "Body (request_legacy_hook legacy_hook_notifier ?ep) = ''{}''"
    by (simp_all add: request_legacy_hook_def legacy_hook_notifier_def Let_def Marshal_empty
          del: Marshal.simps)
  have rh: "fst (Notify_legacy_hook legacy_hook_notifier ?ec empty_world) = None"
    by (simp add: Notify_legacy_hook_result legacy_hook_notifier_def NewNotifierBase_def
          transport_ok_def)
  have sr: "sent (snd (Notify_legacy_room legacy_room_notifier ?ec empty_world))
              = [request_legacy_room legacy_room_notifier ?ec]"
    by (simp add: Notify_legacy_room_sent empty_world_def)
  have en: "encode_string
             ''[Paused] cpu\<newline>\<newline>*State:* cpu\<newline>*Message:* load is high\<newline>'' =
       ''\"[Paused] cpu'' @ newline_escape @ newline_escape @ ''*State:* cpu''
         @ newline_escape @ ''*Message:* load is high'' @ newline_escape @ ''\"''"
    by (simp add: encode_string_def escape_byte_def newline_escape_def)
  have rid: "encode_string (WebexNotifier_legacy_room.RoomId legacy_room_notifier) = ''\"R1\"''"
    by (simp add: legacy_room_notifier_def encode_string_def escape_byte_def)
  have br: "Body (request_legacy_room legacy_room_notifier ?ec) =
       ''{\"markdown\":\"[Paused] cpu'' @ newline_escape @ newline_escape @ ''*State:* cpu''
         @ newline_escape @ ''*Message:* load is high'' @ newline_escape
         @ ''\",\"roomId\":\"R1\"}''"
    unfolding request_legacy_room_body m en rid by simp
  have rr: "fst (Notify_legacy_room legacy_room_notifier ?ec empty_world) = None"
    by (simp add: Notify_legacy_room_result legacy_room_notifier_def NewNotifierBase_def
          transport_ok_def)
  show ?thesis
    using c e m sh bh rh sr br rr by simp
qed

end
